theory Spec2Isabelle
  imports Main "HOL-Library.Multiset"
begin

section \<open>Data model: the two tables of \<^verbatim>\<open>createTables\<close>\<close>

text \<open>
  The backend half of \<^verbatim>\<open>src/app.js\<close> keeps all of its state in two MySQL tables,
  reached through one connection \<^verbatim>\<open>db\<close>. A table is modelled as the list of its rows in
  insertion order. Columns that no statement of the program ever reads (\<^verbatim>\<open>seats.id\<close>) are
  left out. \<^verbatim>\<open>DECIMAL(10, 2)\<close> prices are counted in hundredths, so \<^verbatim>\<open>200.00\<close> is
  \<open>20000\<close>. \<^verbatim>\<open>TIMESTAMP\<close>s are seconds as a natural number. Strings are compared with
  plain equality; the lengths of the \<^verbatim>\<open>VARCHAR\<close> columns and the collation of the server
  are not modelled.
\<close>

datatype seat_type = regular | premium

datatype booking_status = confirmed | cancelled

record seat =
  s_seat_number :: string
  s_movie_name :: string
  s_show_time :: string
  s_is_available :: bool
  s_seat_type :: seat_type
  s_price :: nat

record booking =
  b_id :: nat
  b_user_name :: string
  b_email :: string
  b_phone :: string
  b_movie_name :: string
  b_show_time :: string
  b_seat_number :: string
  b_booking_date :: nat
  b_status :: booking_status

text \<open>
  \<open>next_id\<close> is the \<^verbatim>\<open>AUTO_INCREMENT\<close> counter of \<^verbatim>\<open>bookings.id\<close>. It is owned by
  the storage engine and is not restored when a transaction is rolled back.
\<close>

record database =
  seats :: "seat list"
  bookings :: "booking list"
  next_id :: nat

definition empty_database :: database where
  "empty_database = \<lparr>seats = [], bookings = [], next_id = 1\<rparr>"

text \<open>
  Both tables declare \<^verbatim>\<open>UNIQUE KEY (seat_number, show_time, movie_name)\<close>
  (\<^verbatim>\<open>unique_seat\<close> on seats, \<^verbatim>\<open>unique_seat_show\<close> on bookings). The key of
  \<^verbatim>\<open>bookings\<close> does not contain \<^verbatim>\<open>status\<close>.
\<close>

type_synonym triple = "string \<times> string \<times> string"

definition unique_seat :: "seat \<Rightarrow> triple" where
  "unique_seat s = (s_seat_number s, s_show_time s, s_movie_name s)"

definition unique_seat_show :: "booking \<Rightarrow> triple" where
  "unique_seat_show b = (b_seat_number b, b_show_time b, b_movie_name b)"

section \<open>Responses and storage errors\<close>

text \<open>
  \<open>Error c m\<close> is \<^verbatim>\<open>res.status(c).json({ error: m })\<close>, \<open>Success m\<close> is
  \<^verbatim>\<open>res.json({ success: true, message: m })\<close> and \<open>Booked i\<close> is the reply of a
  successful reservation, which carries \<^verbatim>\<open>bookingId: bookingResult.insertId\<close>.
\<close>

datatype response = Error nat string | Success string | Booked nat

definition SeatNotFound :: response where
  "SeatNotFound = Error 400 ''Seat not found''"

definition SeatUnavailable :: response where
  "SeatUnavailable = Error 400 ''Seat already booked''"

definition NotCancellable :: response where
  "NotCancellable = Error 404 ''Booking not found or already cancelled''"

definition NotFound :: response where
  "NotFound = Error 404 ''Booking not found''"

fun TransactionFailed :: "response \<Rightarrow> bool" where
  "TransactionFailed (Error c m) = (c = 500)"
| "TransactionFailed _ = False"

text \<open>
  Every callback of the connection receives an \<^verbatim>\<open>err\<close>. Whether a statement meets a
  storage error (lost connection, lock timeout, ...) is an input of the model: one flag per
  statement of a handler, in the order in which the handler issues them. A violated unique
  key is not such an input: it follows from the rows and is computed by \<open>createBooking\<close>.
\<close>

record failures =
  begin_fails :: bool
  fetch_fails :: bool
  write_fails :: bool
  seat_update_fails :: bool
  commit_fails :: bool

definition no_failure :: failures where
  "no_failure = \<lparr>begin_fails = False, fetch_fails = False, write_fails = False,
     seat_update_fails = False, commit_fails = False\<rparr>"

text \<open>\<^verbatim>\<open>db.rollback()\<close>: the tables are as they were at \<^verbatim>\<open>beginTransaction\<close>.\<close>

definition rollback :: "database \<Rightarrow> database \<Rightarrow> database" where
  "rollback db0 db = db0\<lparr>next_id := next_id db\<rparr>"

section \<open>The SQL statements\<close>

definition at_seat :: "string \<Rightarrow> string \<Rightarrow> string \<Rightarrow> seat \<Rightarrow> bool" where
  "at_seat seatNumber movieName showTime s \<longleftrightarrow>
     s_seat_number s = seatNumber \<and> s_movie_name s = movieName \<and> s_show_time s = showTime"

text \<open>\<^verbatim>\<open>SELECT is_available FROM seats WHERE seat_number = ? AND movie_name = ? AND show_time = ?\<close>\<close>

definition checkSeat :: "string \<Rightarrow> string \<Rightarrow> string \<Rightarrow> database \<Rightarrow> bool list" where
  "checkSeat seatNumber movieName showTime db =
     map s_is_available (filter (at_seat seatNumber movieName showTime) (seats db))"

text \<open>
  \<^verbatim>\<open>INSERT INTO bookings (user_name, email, phone, movie_name, show_time, seat_number)\<close>:
  the id comes from the counter, \<^verbatim>\<open>booking_date\<close> and \<^verbatim>\<open>status\<close> take their defaults
  \<^verbatim>\<open>CURRENT_TIMESTAMP\<close> and \<^verbatim>\<open>'confirmed'\<close>. The statement is refused when a row with
  the same \<^verbatim>\<open>unique_seat_show\<close> key is already in the table, whatever its status.
  \<open>None\<close> is the callback's \<^verbatim>\<open>err\<close>; otherwise the result carries \<^verbatim>\<open>insertId\<close>.
\<close>

definition createBooking ::
  "bool \<Rightarrow> nat \<Rightarrow> string \<Rightarrow> string \<Rightarrow> string \<Rightarrow> string \<Rightarrow> string \<Rightarrow> string \<Rightarrow> database
     \<Rightarrow> (nat \<times> database) option" where
  "createBooking err now userName email phone movieName showTime seatNumber db =
     (if err \<or> (seatNumber, showTime, movieName) \<in> set (map unique_seat_show (bookings db))
      then None
      else Some (next_id db,
        db\<lparr>bookings := bookings db @
              [\<lparr>b_id = next_id db, b_user_name = userName, b_email = email, b_phone = phone,
                b_movie_name = movieName, b_show_time = showTime, b_seat_number = seatNumber,
                b_booking_date = now, b_status = confirmed\<rparr>],
           next_id := Suc (next_id db)\<rparr>))"

text \<open>\<^verbatim>\<open>UPDATE seats SET is_available = v WHERE seat_number = ? AND movie_name = ? AND show_time = ?\<close>\<close>

definition updateSeat :: "bool \<Rightarrow> string \<Rightarrow> string \<Rightarrow> string \<Rightarrow> database \<Rightarrow> database" where
  "updateSeat v seatNumber movieName showTime db =
     db\<lparr>seats := map (\<lambda>s. if at_seat seatNumber movieName showTime s
                           then s\<lparr>s_is_available := v\<rparr> else s) (seats db)\<rparr>"

text \<open>\<^verbatim>\<open>SELECT * FROM bookings WHERE id = ?\<close>, in Cancel with \<^verbatim>\<open>AND status = "confirmed"\<close>\<close>

definition getBooking :: "nat \<Rightarrow> database \<Rightarrow> booking list" where
  "getBooking bookingId db = filter (\<lambda>b. b_id b = bookingId) (bookings db)"

definition getConfirmedBooking :: "nat \<Rightarrow> database \<Rightarrow> booking list" where
  "getConfirmedBooking bookingId db =
     filter (\<lambda>b. b_id b = bookingId \<and> b_status b = confirmed) (bookings db)"

text \<open>\<^verbatim>\<open>UPDATE bookings SET status = "cancelled" WHERE id = ?\<close>\<close>

definition updateBookingStatus :: "nat \<Rightarrow> database \<Rightarrow> database" where
  "updateBookingStatus bookingId db =
     db\<lparr>bookings := map (\<lambda>b. if b_id b = bookingId then b\<lparr>b_status := cancelled\<rparr> else b)
                        (bookings db)\<rparr>"

text \<open>\<^verbatim>\<open>DELETE FROM bookings WHERE id = ?\<close>\<close>

definition deleteBooking :: "nat \<Rightarrow> database \<Rightarrow> database" where
  "deleteBooking bookingId db =
     db\<lparr>bookings := filter (\<lambda>b. b_id b \<noteq> bookingId) (bookings db)\<rparr>"

text \<open>\<^verbatim>\<open>UPDATE bookings SET user_name = ?, email = ?, phone = ? WHERE id = ?\<close>\<close>

definition updateContact :: "string \<Rightarrow> string \<Rightarrow> string \<Rightarrow> nat \<Rightarrow> database \<Rightarrow> database" where
  "updateContact userName email phone bookingId db =
     db\<lparr>bookings := map (\<lambda>b. if b_id b = bookingId
                              then b\<lparr>b_user_name := userName, b_email := email, b_phone := phone\<rparr>
                              else b) (bookings db)\<rparr>"

section \<open>The request handlers of the Booking Transaction Manager\<close>

text \<open>
  Each handler is the chain of nested callbacks of the source, read from the outside in:
  every \<^verbatim>\<open>if (err) { ...; return; }\<close> is one branch, in the source's order. A handler
  takes the storage errors it will meet and the database, and returns the response it
  sends together with the database it leaves behind. \<^verbatim>\<open>results[0]\<close> is \<open>hd results\<close>,
  read only where the source has already found \<^verbatim>\<open>results.length\<close> not to be 0.
\<close>

subsection \<open>\<^verbatim>\<open>app.post('/api/bookings')\<close>: Reserve\<close>

definition post_api_bookings ::
  "failures \<Rightarrow> nat \<Rightarrow> string \<Rightarrow> string \<Rightarrow> string \<Rightarrow> string \<Rightarrow> string \<Rightarrow> string \<Rightarrow> database
     \<Rightarrow> response \<times> database" where
  "post_api_bookings f now userName email phone movieName showTime seatNumber db =
     (if begin_fails f then (Error 500 ''Transaction failed'', db)
      else let results = checkSeat seatNumber movieName showTime db in
        if fetch_fails f \<or> results = [] then (Error 400 ''Seat not found'', rollback db db)
        else if \<not> hd results then (Error 400 ''Seat already booked'', rollback db db)
        else case createBooking (write_fails f) now userName email phone
                    movieName showTime seatNumber db of
          None \<Rightarrow> (Error 500 ''Failed to create booking'', rollback db db)
        | Some (insertId, db1) \<Rightarrow>
            if seat_update_fails f
            then (Error 500 ''Failed to update seat'', rollback db db1)
            else let db2 = updateSeat False seatNumber movieName showTime db1 in
              if commit_fails f
              then (Error 500 ''Failed to commit transaction'', rollback db db2)
              else (Booked insertId, db2))"

subsection \<open>\<^verbatim>\<open>app.put('/api/bookings/:id/cancel')\<close>: Cancel\<close>

definition put_api_bookings_id_cancel ::
  "failures \<Rightarrow> nat \<Rightarrow> database \<Rightarrow> response \<times> database" where
  "put_api_bookings_id_cancel f bookingId db =
     (if begin_fails f then (Error 500 ''Transaction failed'', db)
      else let results = getConfirmedBooking bookingId db in
        if fetch_fails f \<or> results = []
        then (Error 404 ''Booking not found or already cancelled'', rollback db db)
        else let booking = hd results in
          if write_fails f
          then (Error 500 ''Failed to cancel booking'', rollback db db)
          else let db1 = updateBookingStatus bookingId db in
            if seat_update_fails f
            then (Error 500 ''Failed to update seat availability'', rollback db db1)
            else let db2 = updateSeat True (b_seat_number booking) (b_movie_name booking)
                             (b_show_time booking) db1 in
              if commit_fails f
              then (Error 500 ''Failed to commit transaction'', rollback db db2)
              else (Success ''Booking cancelled successfully'', db2))"

subsection \<open>\<^verbatim>\<open>app.delete('/api/bookings/:id')\<close>: Delete\<close>

definition delete_api_bookings_id ::
  "failures \<Rightarrow> nat \<Rightarrow> database \<Rightarrow> response \<times> database" where
  "delete_api_bookings_id f bookingId db =
     (if begin_fails f then (Error 500 ''Transaction failed'', db)
      else let results = getBooking bookingId db in
        if fetch_fails f \<or> results = [] then (Error 404 ''Booking not found'', rollback db db)
        else let booking = hd results in
          if write_fails f
          then (Error 500 ''Failed to delete booking'', rollback db db)
          else let db1 = deleteBooking bookingId db in
            if b_status booking = confirmed
            then if seat_update_fails f
              then (Error 500 ''Failed to update seat availability'', rollback db db1)
              else let db2 = updateSeat True (b_seat_number booking) (b_movie_name booking)
                               (b_show_time booking) db1 in
                if commit_fails f
                then (Error 500 ''Failed to commit transaction'', rollback db db2)
                else (Success ''Booking deleted successfully'', db2)
            else if commit_fails f
              then (Error 500 ''Failed to commit transaction'', rollback db db1)
              else (Success ''Booking deleted successfully'', db1))"

subsection \<open>\<^verbatim>\<open>app.put('/api/bookings/:id')\<close>: UpdateContactInfo\<close>

text \<open>
  One statement outside any transaction. \<^verbatim>\<open>result.affectedRows\<close> counts the rows the
  \<^verbatim>\<open>WHERE\<close> clause matched. The handler looks at \<^verbatim>\<open>userName\<close>, \<^verbatim>\<open>email\<close> and
  \<^verbatim>\<open>phone\<close> nowhere before it hands them to the statement.
\<close>

definition put_api_bookings_id ::
  "failures \<Rightarrow> nat \<Rightarrow> string \<Rightarrow> string \<Rightarrow> string \<Rightarrow> database \<Rightarrow> response \<times> database" where
  "put_api_bookings_id f bookingId userName email phone db =
     (if write_fails f then (Error 500 ''Failed to update booking'', db)
      else if getBooking bookingId db = [] then (Error 404 ''Booking not found'', db)
      else (Success ''Booking updated successfully'',
            updateContact userName email phone bookingId db))"

subsection \<open>\<^verbatim>\<open>app.get('/api/bookings')\<close> and \<^verbatim>\<open>app.get('/api/bookings/:id')\<close>\<close>

text \<open>
  \<^verbatim>\<open>SELECT b.*, s.price, s.seat_type FROM bookings b JOIN seats s ON ...\<close>: an inner
  join, so a booking with no seat of its triple yields no row and a booking with two
  yields two. The listing is ordered by \<^verbatim>\<open>b.booking_date DESC\<close>; the order of rows of
  one date is the server's choice, and nothing below depends on it.
\<close>

type_synonym booking_row = "booking \<times> nat \<times> seat_type"

definition join_seats :: "database \<Rightarrow> booking \<Rightarrow> booking_row list" where
  "join_seats db b =
     map (\<lambda>s. (b, s_price s, s_seat_type s))
       (filter (at_seat (b_seat_number b) (b_movie_name b) (b_show_time b)) (seats db))"

definition get_api_bookings :: "failures \<Rightarrow> database \<Rightarrow> response + booking_row list" where
  "get_api_bookings f db =
     (if fetch_fails f then Inl (Error 500 ''Failed to fetch bookings'')
      else Inr (rev (sort_key (\<lambda>r. b_booking_date (fst r))
                  (concat (map (join_seats db) (bookings db))))))"

definition get_api_bookings_id :: "failures \<Rightarrow> nat \<Rightarrow> database \<Rightarrow> response + booking_row" where
  "get_api_bookings_id f bookingId db =
     (if fetch_fails f then Inl (Error 500 ''Failed to fetch booking'')
      else case concat (map (join_seats db) (getBooking bookingId db)) of
        [] \<Rightarrow> Inl (Error 404 ''Booking not found'')
      | r # _ \<Rightarrow> Inr r)"

section \<open>Seeding the Seat Ledger: \<^verbatim>\<open>initializeSeats\<close>\<close>

text \<open>The template literal \<^verbatim>\<open>`${row}${i}`\<close> writes the number \<^verbatim>\<open>i\<close> in decimal.\<close>

function toString :: "nat \<Rightarrow> string" where
  "toString n =
     (if n < 10 then [''0123456789'' ! n]
      else toString (n div 10) @ [''0123456789'' ! (n mod 10)])"
  by pat_completeness auto
termination
  by (relation "measure id") auto

declare toString.simps [simp del]

definition movies :: "string list" where
  "movies = [''Avengers: Endgame'', ''Spider-Man'', ''Batman'']"

definition showTimes :: "string list" where
  "showTimes = [''10:00 AM'', ''2:00 PM'', ''6:00 PM'', ''10:00 PM'']"

definition seatRows :: "string list" where
  "seatRows = [''A'', ''B'', ''C'', ''D'', ''E'']"

text \<open>
  \<^verbatim>\<open>INSERT INTO seats (...) VALUES (?, ?, ?, TRUE, ?, ?)\<close>. An error, also the one of
  the \<^verbatim>\<open>unique_seat\<close> key, is written to the console and the loop goes on.
\<close>

definition insertSeat ::
  "bool \<Rightarrow> string \<Rightarrow> string \<Rightarrow> string \<Rightarrow> seat_type \<Rightarrow> nat \<Rightarrow> database \<Rightarrow> database" where
  "insertSeat err seatNumber movie showTime seatType price db =
     (if err \<or> (seatNumber, showTime, movie) \<in> set (map unique_seat (seats db)) then db
      else db\<lparr>seats := seats db @
             [\<lparr>s_seat_number = seatNumber, s_movie_name = movie, s_show_time = showTime,
               s_is_available = True, s_seat_type = seatType, s_price = price\<rparr>]\<rparr>)"

text \<open>The body of the innermost loop, for one \<^verbatim>\<open>movie\<close>, \<^verbatim>\<open>showTime\<close>, \<^verbatim>\<open>row\<close> and \<^verbatim>\<open>i\<close>.\<close>

definition seed_one ::
  "(string \<Rightarrow> string \<Rightarrow> string \<Rightarrow> bool) \<Rightarrow> string \<Rightarrow> string \<Rightarrow> string \<Rightarrow> nat
     \<Rightarrow> database \<Rightarrow> database" where
  "seed_one insert_fails movie showTime row i db =
     (let seatNumber = row @ toString i;
          seatType = (if row = ''A'' \<or> row = ''B'' then premium else regular);
          price = (if seatType = premium then 20000 else 15000)
      in insertSeat (insert_fails seatNumber movie showTime)
           seatNumber movie showTime seatType price db)"

text \<open>
  \<open>count_fails\<close> is the \<^verbatim>\<open>err\<close> of \<^verbatim>\<open>SELECT COUNT(*) as count FROM seats\<close> and
  \<open>insert_fails\<close> tells which of the inserts meet a storage error. The four nested loops
  are four nested folds.
\<close>

definition initializeSeats ::
  "bool \<Rightarrow> (string \<Rightarrow> string \<Rightarrow> string \<Rightarrow> bool) \<Rightarrow> database \<Rightarrow> database" where
  "initializeSeats count_fails insert_fails db =
     (if count_fails then db
      else if length (seats db) = 0
      then fold (\<lambda>movie.
             fold (\<lambda>showTime.
               fold (\<lambda>row.
                 fold (\<lambda>i. seed_one insert_fails movie showTime row i) [1..<11])
               seatRows)
             showTimes)
           movies db
      else db)"

text \<open>The catalog after a first start on empty tables, with no storage error.\<close>

definition seeded :: database where
  "seeded = initializeSeats False (\<lambda>seatNumber movie showTime. False) empty_database"

section \<open>The browser client: \<^verbatim>\<open>updateBooking\<close>\<close>

text \<open>
  A JavaScript string is a sequence of UTF-16 code units, and \<^verbatim>\<open>trim()\<close> and the
  regular expressions of the client work on code units. The fields of the edit form are
  therefore lists of code units, written as numbers; \<open>js\<close> writes an ASCII text as such
  a list.
\<close>

type_synonym js_string = "nat list"

definition js :: "string \<Rightarrow> js_string" where
  "js s = map of_char s"

text \<open>
  What \<^verbatim>\<open>\s\<close> matches and \<^verbatim>\<open>trim()\<close> strips, the white space and the line
  terminators of ECMAScript: TAB, LF, VT, FF, CR, the blank, U+00A0, U+1680, U+2000 to
  U+200A, U+2028, U+2029, U+202F, U+205F, U+3000 and U+FEFF.
\<close>

definition is_space :: "nat \<Rightarrow> bool" where
  "is_space c \<longleftrightarrow>
     c \<in> {0x09, 0x0A, 0x0B, 0x0C, 0x0D, 0x20, 0xA0, 0x1680, 0x2028, 0x2029, 0x202F, 0x205F,
          0x3000, 0xFEFF} \<or>
     (0x2000 \<le> c \<and> c \<le> 0x200A)"

definition trim :: "js_string \<Rightarrow> js_string" where
  "trim s = rev (dropWhile is_space (rev (dropWhile is_space s)))"

text \<open>
  \<^verbatim>\<open>/^[^\s@]+@[^\s@]+\.[^\s@]+$/\<close>: no white space, one \<^verbatim>\<open>@\<close> (code unit 0x40) with
  something before it, and after it a dot (0x2E) that is neither the first nor the last
  code unit.
\<close>

definition emailRegex :: "js_string \<Rightarrow> bool" where
  "emailRegex e \<longleftrightarrow>
     (let name = takeWhile (\<lambda>c. c \<noteq> 0x40) e;
          rest = dropWhile (\<lambda>c. c \<noteq> 0x40) e
      in \<not> list_ex is_space e \<and> name \<noteq> [] \<and> rest \<noteq> [] \<and> 0x40 \<notin> set (tl rest) \<and>
         list_ex (\<lambda>i. tl rest ! i = 0x2E) [1..<length (tl rest) - 1])"

text \<open>
  \<^verbatim>\<open>/^[0-9]{10,15}$/\<close> (the digits are 0x30 to 0x39), tested on
  \<^verbatim>\<open>phone.replace(/[\s\-\(\)]/g, '')\<close> (0x2D, 0x28 and 0x29 are the hyphen and the two
  parentheses).
\<close>

definition phoneRegex :: "js_string \<Rightarrow> bool" where
  "phoneRegex p \<longleftrightarrow>
     list_all (\<lambda>c. 0x30 \<le> c \<and> c \<le> 0x39) p \<and> 10 \<le> length p \<and> length p \<le> 15"

definition cleanPhone :: "js_string \<Rightarrow> js_string" where
  "cleanPhone phone =
     filter (\<lambda>c. \<not> (is_space c \<or> c = 0x2D \<or> c = 0x28 \<or> c = 0x29)) phone"

text \<open>
  \<open>Alert m t\<close> is \<^verbatim>\<open>showAlert(m, t)\<close>. \<^verbatim>\<open>updateBooking\<close> reads the global
  \<^verbatim>\<open>currentBookingId\<close> (\<^verbatim>\<open>null\<close> is \<open>None\<close>; \<^verbatim>\<open>0\<close> is falsy as well) and the three
  fields of the edit form. Only when all its checks pass does it send the \<^verbatim>\<open>PUT\<close>
  request; the request is taken to reach the server and the reply to come back. How a
  JavaScript string of the request body arrives as the value of a \<^verbatim>\<open>VARCHAR\<close> column
  is the work of \<^verbatim>\<open>JSON.stringify\<close>, of the body parser and of the character set of the
  connection; it is the parameter \<open>wire\<close>.
\<close>

datatype alert = Alert string string

definition updateBooking ::
  "(js_string \<Rightarrow> string) \<Rightarrow> failures \<Rightarrow> nat option \<Rightarrow> js_string \<Rightarrow> js_string \<Rightarrow> js_string
     \<Rightarrow> database \<Rightarrow> alert option \<times> database" where
  "updateBooking wire f currentBookingId editUserName editUserEmail editUserPhone db =
     (if currentBookingId = None \<or> currentBookingId = Some 0 then (None, db)
      else let userName = trim editUserName;
               email = trim editUserEmail;
               phone = trim editUserPhone
        in if userName = [] \<or> email = [] \<or> phone = []
           then (Some (Alert ''Please fill in all fields'' ''error''), db)
           else if \<not> emailRegex email
           then (Some (Alert ''Please enter a valid email address'' ''error''), db)
           else if \<not> phoneRegex (cleanPhone phone)
           then (Some (Alert ''Please enter a valid phone number'' ''error''), db)
           else case put_api_bookings_id f (the currentBookingId)
                       (wire userName) (wire email) (wire phone) db of
             (Success m, db') \<Rightarrow> (Some (Alert ''Booking updated successfully'' ''success''), db')
           | (Error c m, db') \<Rightarrow>
               (Some (Alert (if m = [] then ''Update failed'' else m) ''error''), db')
           | (Booked i, db') \<Rightarrow> (Some (Alert ''Booking updated successfully'' ''success''), db'))"

text \<open>The alerts with which the client turns down the contact fields of a form.\<close>

definition ValidationFailed :: "alert option \<Rightarrow> bool" where
  "ValidationFailed a \<longleftrightarrow>
     a \<in> {Some (Alert ''Please fill in all fields'' ''error''),
          Some (Alert ''Please enter a valid email address'' ''error''),
          Some (Alert ''Please enter a valid phone number'' ''error'')}"

section \<open>Handlers that run at the same time\<close>

text \<open>
  All handlers share the one connection \<^verbatim>\<open>db\<close> made by \<^verbatim>\<open>mysql.createConnection\<close>,
  and a transaction belongs to the connection, not to the handler that began it.
  \<open>store\<close> is what a statement on the connection reads and writes; \<open>snapshot\<close> is
  what the tables were when the open transaction began, if one is open.
  \<^verbatim>\<open>START TRANSACTION\<close> inside a transaction commits it and begins the next one,
  \<^verbatim>\<open>ROLLBACK\<close> takes back everything written on the connection since the last
  \<^verbatim>\<open>START TRANSACTION\<close>, by whichever handler.
\<close>

record connection =
  store :: database
  snapshot :: "database option"

definition beginTransaction :: "connection \<Rightarrow> connection" where
  "beginTransaction c = c\<lparr>snapshot := Some (store c)\<rparr>"

definition commit :: "connection \<Rightarrow> connection" where
  "commit c = c\<lparr>snapshot := None\<rparr>"

definition rollback_connection :: "connection \<Rightarrow> connection" where
  "rollback_connection c =
     (case snapshot c of
        None \<Rightarrow> c
      | Some db0 \<Rightarrow> \<lparr>store = rollback db0 (store c), snapshot = None\<rparr>)"

text \<open>The body of a \<^verbatim>\<open>POST /api/bookings\<close> request and the time at which it is served.\<close>

record reserve_call =
  c_now :: nat
  c_userName :: string
  c_email :: string
  c_phone :: string
  c_movieName :: string
  c_showTime :: string
  c_seatNumber :: string

text \<open>
  Where a Reserve handler stands: the statement it has put on the connection and whose
  callback it waits for. In its error branches the handler queues \<^verbatim>\<open>db.rollback()\<close>
  and sends its response at once, so \<open>AtRollback r\<close> has already replied \<open>r\<close>.
\<close>

datatype pending =
  AtBegin | AtCheckSeat | AtCreateBooking | AtUpdateSeat nat | AtCommit nat
| AtRollback response | Replied response

text \<open>
  The connection runs the handler's queued statement and the callback decides what the
  handler does next: the same branches as \<open>post_api_bookings\<close>, one statement at a
  time, with no storage error.
\<close>

fun reserve_step :: "reserve_call \<Rightarrow> pending \<Rightarrow> connection \<Rightarrow> pending \<times> connection" where
  "reserve_step r AtBegin c = (AtCheckSeat, beginTransaction c)"
| "reserve_step r AtCheckSeat c =
     (let results = checkSeat (c_seatNumber r) (c_movieName r) (c_showTime r) (store c) in
        if results = [] then (AtRollback (Error 400 ''Seat not found''), c)
        else if \<not> hd results then (AtRollback (Error 400 ''Seat already booked''), c)
        else (AtCreateBooking, c))"
| "reserve_step r AtCreateBooking c =
     (case createBooking False (c_now r) (c_userName r) (c_email r) (c_phone r)
             (c_movieName r) (c_showTime r) (c_seatNumber r) (store c) of
        None \<Rightarrow> (AtRollback (Error 500 ''Failed to create booking''), c)
      | Some (insertId, db1) \<Rightarrow> (AtUpdateSeat insertId, c\<lparr>store := db1\<rparr>))"
| "reserve_step r (AtUpdateSeat insertId) c =
     (AtCommit insertId,
      c\<lparr>store := updateSeat False (c_seatNumber r) (c_movieName r) (c_showTime r) (store c)\<rparr>)"
| "reserve_step r (AtCommit insertId) c = (Replied (Booked insertId), commit c)"
| "reserve_step r (AtRollback response) c = (Replied response, rollback_connection c)"
| "reserve_step r (Replied response) c = (Replied response, c)"

text \<open>
  The connection sends its queued statements one after the other, in the order in which
  they were queued, and a callback queues the handler's next statement behind all that
  wait. When the handlers of several requests have all started before the first reply of
  the database, the statements therefore run in passes: in each pass every handler that
  has not finished runs one statement, the handlers in the order of their arrival.
\<close>

fun pass :: "reserve_call list \<Rightarrow> pending list \<Rightarrow> connection \<Rightarrow> pending list \<times> connection" where
  "pass (r # rs) (p # ps) c =
     (let (p', c') = reserve_step r p c;
          (ps', c'') = pass rs ps c'
      in (p' # ps', c''))"
| "pass rs ps c = ([], c)"

fun passes ::
  "nat \<Rightarrow> reserve_call list \<Rightarrow> pending list \<Rightarrow> connection \<Rightarrow> pending list \<times> connection" where
  "passes 0 rs ps c = (ps, c)"
| "passes (Suc k) rs ps c = (let (ps', c') = pass rs ps c in passes k rs ps' c')"

text \<open>
  A Reserve handler issues at most five statements, so five passes bring every handler to
  its end. The connection starts with no transaction open.
\<close>

definition concurrent_reserves :: "reserve_call list \<Rightarrow> database \<Rightarrow> pending list \<times> connection" where
  "concurrent_reserves rs db =
     passes 5 rs (map (\<lambda>r. AtBegin) rs) \<lparr>store = db, snapshot = None\<rparr>"

text \<open>How many statements a handler may still put on the connection.\<close>

fun remaining :: "pending \<Rightarrow> nat" where
  "remaining AtBegin = 5"
| "remaining AtCheckSeat = 4"
| "remaining AtCreateBooking = 3"
| "remaining (AtUpdateSeat insertId) = 2"
| "remaining (AtCommit insertId) = 1"
| "remaining (AtRollback response) = 1"
| "remaining (Replied response) = 0"

text \<open>
  For comparison, the same requests served one after the other: each handler runs from
  \<^verbatim>\<open>beginTransaction\<close> to its reply before the next one starts.
\<close>

fun serial_reserves :: "reserve_call list \<Rightarrow> database \<Rightarrow> response list \<times> database" where
  "serial_reserves [] db = ([], db)"
| "serial_reserves (r # rs) db =
     (let (response, db1) = post_api_bookings no_failure (c_now r) (c_userName r) (c_email r)
            (c_phone r) (c_movieName r) (c_showTime r) (c_seatNumber r) db;
          (responses, db2) = serial_reserves rs db1
      in (response # responses, db2))"

text \<open>Two customers who ask for seat A1 of the 2:00 PM show of Batman.\<close>

definition asha_A1 :: reserve_call where
  "asha_A1 = \<lparr>c_now = 100, c_userName = ''Asha'', c_email = ''asha@example.com'',
     c_phone = ''9800000000'', c_movieName = ''Batman'', c_showTime = ''2:00 PM'',
     c_seatNumber = ''A1''\<rparr>"

definition bina_A1 :: reserve_call where
  "bina_A1 = \<lparr>c_now = 100, c_userName = ''Bina'', c_email = ''bina@example.com'',
     c_phone = ''9811111111'', c_movieName = ''Batman'', c_showTime = ''2:00 PM'',
     c_seatNumber = ''A1''\<rparr>"

section \<open>The catalog, the reachable states and what they keep true\<close>

text \<open>
  The fixed catalog in the words of the specification: movies \<open>\<times>\<close> showtimes \<open>\<times>\<close> seat rows
  A to E \<open>\<times>\<close> seat numbers 1 to 10, and for each combination one available seat, premium at
  200.00 in rows A and B and regular at 150.00 in all others.
\<close>

definition catalog :: "(string \<times> string \<times> string \<times> nat) list" where
  "catalog = List.product movies (List.product showTimes (List.product seatRows [1..<11]))"

definition catalog_seat :: "string \<times> string \<times> string \<times> nat \<Rightarrow> seat" where
  "catalog_seat c = (case c of (movie, showTime, row, i) \<Rightarrow>
     \<lparr>s_seat_number = row @ toString i, s_movie_name = movie, s_show_time = showTime,
      s_is_available = True,
      s_seat_type = (if row \<in> {''A'', ''B''} then premium else regular),
      s_price = (if row \<in> {''A'', ''B''} then 20000 else 15000)\<rparr>)"

text \<open>
  The states the system can be in: the seeded catalog, and whatever a Reserve, Cancel,
  Delete or UpdateContactInfo request leaves behind, one request after the other, with any
  arguments and any storage errors.
\<close>

inductive reachable :: "database \<Rightarrow> bool" where
  Seeded: "reachable seeded"
| Reserve: "reachable db \<Longrightarrow>
    reachable (snd (post_api_bookings f now userName email phone movieName showTime seatNumber db))"
| Cancel: "reachable db \<Longrightarrow> reachable (snd (put_api_bookings_id_cancel f bookingId db))"
| Delete: "reachable db \<Longrightarrow> reachable (snd (delete_api_bookings_id f bookingId db))"
| UpdateContactInfo: "reachable db \<Longrightarrow>
    reachable (snd (put_api_bookings_id f bookingId userName email phone db))"

text \<open>The confirmed bookings of a seat triple.\<close>

definition confirmed_bookings :: "string \<Rightarrow> string \<Rightarrow> string \<Rightarrow> database \<Rightarrow> booking list" where
  "confirmed_bookings movieName showTime seatNumber db =
     filter (\<lambda>b. b_movie_name b = movieName \<and> b_show_time b = showTime \<and>
                 b_seat_number b = seatNumber \<and> b_status b = confirmed) (bookings db)"

text \<open>
  What the two schemas and the handlers keep true of the tables: both unique keys, the
  primary key of \<^verbatim>\<open>bookings\<close> below the counter, and every booking on a seat of the
  ledger.
\<close>

definition wf_database :: "database \<Rightarrow> bool" where
  "wf_database db \<longleftrightarrow>
     distinct (map unique_seat (seats db)) \<and>
     distinct (map unique_seat_show (bookings db)) \<and>
     distinct (map b_id (bookings db)) \<and>
     (\<forall>b \<in> set (bookings db). b_id b < next_id db) \<and>
     (\<forall>b \<in> set (bookings db). \<exists>s \<in> set (seats db).
        at_seat (b_seat_number b) (b_movie_name b) (b_show_time b) s)"

text \<open>
  Two states used as examples: the seeded catalog after seat A1 of the 2:00 PM show of
  Batman has been reserved, and after that booking, which has id 1, has been cancelled.
\<close>

definition booking_1 :: booking where
  "booking_1 = \<lparr>b_id = 1, b_user_name = ''Asha'', b_email = ''asha@example.com'',
     b_phone = ''9800000000'', b_movie_name = ''Batman'', b_show_time = ''2:00 PM'',
     b_seat_number = ''A1'', b_booking_date = 100, b_status = confirmed\<rparr>"

definition reserved_A1 :: database where
  "reserved_A1 = snd (post_api_bookings no_failure 100 ''Asha'' ''asha@example.com''
     ''9800000000'' ''Batman'' ''2:00 PM'' ''A1'' seeded)"

definition cancelled_A1 :: database where
  "cancelled_A1 = snd (put_api_bookings_id_cancel no_failure 1 reserved_A1)"

section \<open>Seeding\<close>

lemma toString_digits:
  "toString (Suc 0) = ''1''" "toString 1 = ''1''"
  "toString 2 = ''2''" "toString 3 = ''3''" "toString 4 = ''4''"
  "toString 5 = ''5''" "toString 6 = ''6''" "toString 7 = ''7''" "toString 8 = ''8''"
  "toString 9 = ''9''" "toString 10 = ''10''"
  by (simp_all add: toString.simps)

lemma upt_1_11: "[1..<11] = [1, 2, 3, 4, 5, 6, 7, 8, 9, 10::nat]"
  by (simp add: upt_rec)

lemma toString_inj:
  "i \<in> set [1..<11] \<Longrightarrow> j \<in> set [1..<11] \<Longrightarrow> toString i = toString j \<Longrightarrow> i = j"
  unfolding upt_1_11 by (auto simp: toString_digits)

lemma seed_one_eq:
  "seed_one (\<lambda>a b c. False) movie showTime row i db =
     (if unique_seat (catalog_seat (movie, showTime, row, i)) \<in> set (map unique_seat (seats db))
      then db
      else db\<lparr>seats := seats db @ [catalog_seat (movie, showTime, row, i)]\<rparr>)"
  by (simp add: seed_one_def insertSeat_def catalog_seat_def unique_seat_def Let_def)

text \<open>Nested loops run through the product of their ranges, the outermost loop slowest.\<close>

lemma fold_product:
  "fold (\<lambda>x. fold (g x) ys) xs = fold (\<lambda>(x, y). g x y) (List.product xs ys)"
  by (induction xs) (simp_all add: fold_map comp_def)

lemma nested_folds:
  "fold (\<lambda>movie. fold (\<lambda>showTime. fold (\<lambda>row. fold (\<lambda>i. g movie showTime row i) ns) rs) ts) ms
   = fold (\<lambda>(movie, showTime, row, i). g movie showTime row i)
       (List.product ms (List.product ts (List.product rs ns)))"
  by (simp add: fold_product)

lemma catalog_distinct: "distinct catalog"
proof -
  have "distinct movies" "distinct showTimes" "distinct seatRows"
    by (simp_all add: movies_def showTimes_def seatRows_def)
  then show ?thesis
    unfolding catalog_def by (intro distinct_product distinct_upt)
qed

text \<open>No two combinations of the catalog give the same seat triple.\<close>

lemma catalog_key_inj: "inj_on (\<lambda>c. unique_seat (catalog_seat c)) (set catalog)"
proof (rule inj_onI)
  fix x y assume x: "x \<in> set catalog" and y: "y \<in> set catalog"
    and eq: "unique_seat (catalog_seat x) = unique_seat (catalog_seat y)"
  obtain m t r i where x': "x = (m, t, r, i)" by (cases x) auto
  obtain m' t' r' i' where y': "y = (m', t', r', i')" by (cases y) auto
  from x x' have r: "r \<in> set seatRows" and i: "i \<in> set [1..<11]"
    by (auto simp: catalog_def)
  from y y' have r': "r' \<in> set seatRows" and i': "i' \<in> set [1..<11]"
    by (auto simp: catalog_def)
  from eq x' y' have mt: "m = m'" "t = t'" and sn: "r @ toString i = r' @ toString i'"
    by (simp_all add: unique_seat_def catalog_seat_def)
  from r obtain c where c: "r = [c]" by (auto simp: seatRows_def)
  from r' obtain c' where c': "r' = [c']" by (auto simp: seatRows_def)
  from sn c c' have "c = c'" "toString i = toString i'" by simp_all
  with toString_inj [OF i i'] c c' mt x' y' show "x = y" by simp
qed

lemma catalog_keys_distinct: "distinct (map unique_seat (map catalog_seat catalog))"
  using catalog_distinct catalog_key_inj by (simp add: distinct_map comp_def)

lemma fold_seed:
  "distinct (map (\<lambda>c. unique_seat (catalog_seat c)) cs) \<Longrightarrow>
   (\<lambda>c. unique_seat (catalog_seat c)) ` set cs \<inter> unique_seat ` set (seats db) = {} \<Longrightarrow>
   fold (\<lambda>(movie, showTime, row, i). seed_one (\<lambda>a b c. False) movie showTime row i) cs db
     = db\<lparr>seats := seats db @ map catalog_seat cs\<rparr>"
proof (induction cs arbitrary: db)
  case Nil
  then show ?case by simp
next
  case (Cons c cs)
  obtain m t r i where c: "c = (m, t, r, i)" by (cases c) auto
  let ?db = "db\<lparr>seats := seats db @ [catalog_seat c]\<rparr>"
  from Cons.prems have fresh: "unique_seat (catalog_seat c) \<notin> unique_seat ` set (seats db)"
    by auto
  then have step: "seed_one (\<lambda>a b c. False) m t r i db = ?db"
    by (simp add: seed_one_eq c)
  from Cons.prems have "distinct (map (\<lambda>c. unique_seat (catalog_seat c)) cs)"
    and "(\<lambda>c. unique_seat (catalog_seat c)) ` set cs \<inter> unique_seat ` set (seats ?db) = {}"
    by auto
  from Cons.IH [OF this] step show ?case by (simp add: c)
qed

lemma initializeSeats_empty:
  assumes "seats db = []"
  shows "initializeSeats False (\<lambda>a b c. False) db = db\<lparr>seats := map catalog_seat catalog\<rparr>"
proof -
  have "distinct (map (\<lambda>c. unique_seat (catalog_seat c)) catalog)"
    using catalog_keys_distinct by (simp add: comp_def)
  from fold_seed [OF this, of db] assms show ?thesis
    by (simp add: initializeSeats_def nested_folds catalog_def)
qed

lemma length_catalog: "length catalog = 600"
proof -
  have "length catalog = length movies * (length showTimes * (length seatRows * 10))"
    by (simp only: catalog_def length_product length_upt) simp
  then show ?thesis by (simp add: movies_def showTimes_def seatRows_def)
qed

lemma seeded_eq: "seeded = \<lparr>seats = map catalog_seat catalog, bookings = [], next_id = 1\<rparr>"
  by (simp add: seeded_def initializeSeats_empty empty_database_def)

lemma catalog_seat_row:
  assumes "c \<in> set catalog"
  shows "s_is_available (catalog_seat c) \<and>
         take 1 (s_seat_number (catalog_seat c)) \<in> set seatRows \<and>
         (if take 1 (s_seat_number (catalog_seat c)) \<in> {''A'', ''B''}
          then s_seat_type (catalog_seat c) = premium \<and> s_price (catalog_seat c) = 20000
          else s_seat_type (catalog_seat c) = regular \<and> s_price (catalog_seat c) = 15000)"
proof -
  obtain m t r i where c: "c = (m, t, r, i)" by (cases c) auto
  with assms have "r \<in> set seatRows" by (auto simp: catalog_def)
  then obtain ch where r: "r = [ch]" by (auto simp: seatRows_def)
  with \<open>r \<in> set seatRows\<close> show ?thesis by (simp add: c catalog_seat_def)
qed

text \<open>
  Claim C8. On an empty seat table, and when no statement meets a storage error,
  \<^verbatim>\<open>initializeSeats\<close> leaves exactly the seats of the catalog: one per combination of
  movie, showtime, row and number (600 rows, no seat triple twice), every one available,
  premium at 200.00 when its number starts with A or B and regular at 150.00 otherwise,
  and it touches no booking. On a seat table that is not empty it changes nothing, whatever
  errors it meets.
\<close>

theorem initializeSeats_catalog:
  "(seats db = [] \<longrightarrow>
      seats (initializeSeats False (\<lambda>seatNumber movie showTime. False) db)
        = map catalog_seat catalog \<and>
      length (seats (initializeSeats False (\<lambda>seatNumber movie showTime. False) db)) = 600 \<and>
      distinct (map unique_seat
        (seats (initializeSeats False (\<lambda>seatNumber movie showTime. False) db))) \<and>
      (\<forall>s \<in> set (seats (initializeSeats False (\<lambda>seatNumber movie showTime. False) db)).
         s_is_available s \<and>
         (if take 1 (s_seat_number s) \<in> {''A'', ''B''}
          then s_seat_type s = premium \<and> s_price s = 20000
          else s_seat_type s = regular \<and> s_price s = 15000)) \<and>
      bookings (initializeSeats False (\<lambda>seatNumber movie showTime. False) db) = bookings db) \<and>
   (seats db \<noteq> [] \<longrightarrow> initializeSeats count_fails insert_fails db = db)"
proof (intro conjI impI)
  assume e: "seats db = []"
  note eq = initializeSeats_empty [OF e]
  show "seats (initializeSeats False (\<lambda>seatNumber movie showTime. False) db)
        = map catalog_seat catalog"
    by (simp add: eq)
  show "length (seats (initializeSeats False (\<lambda>seatNumber movie showTime. False) db)) = 600"
    by (simp add: eq length_catalog)
  show "distinct (map unique_seat
        (seats (initializeSeats False (\<lambda>seatNumber movie showTime. False) db)))"
    using catalog_keys_distinct by (simp add: eq)
  show "\<forall>s \<in> set (seats (initializeSeats False (\<lambda>seatNumber movie showTime. False) db)).
         s_is_available s \<and>
         (if take 1 (s_seat_number s) \<in> {''A'', ''B''}
          then s_seat_type s = premium \<and> s_price s = 20000
          else s_seat_type s = regular \<and> s_price s = 15000)"
    using catalog_seat_row by (auto simp: eq)
  show "bookings (initializeSeats False (\<lambda>seatNumber movie showTime. False) db) = bookings db"
    by (simp add: eq)
next
  assume "seats db \<noteq> []"
  then show "initializeSeats count_fails insert_fails db = db"
    by (simp add: initializeSeats_def)
qed

lemma catalog_nonempty: "map catalog_seat catalog \<noteq> []"
  using length_catalog by auto

text \<open>The empty database of a first start, and the seeded one of a restart.\<close>

theorem initializeSeats_catalog_witness:
  "(seats empty_database = [] \<and>
    seats (initializeSeats False (\<lambda>seatNumber movie showTime. False) empty_database)
      = map catalog_seat catalog \<and>
    length (seats (initializeSeats False (\<lambda>seatNumber movie showTime. False) empty_database)) = 600) \<and>
   (seats seeded \<noteq> [] \<and> initializeSeats False (\<lambda>seatNumber movie showTime. False) seeded = seeded)"
proof -
  have e: "seats empty_database = []"
    by (simp add: empty_database_def)
  have n: "seats seeded \<noteq> []"
    using catalog_nonempty by (simp add: seeded_eq)
  from e initializeSeats_catalog [of empty_database]
  have "seats (initializeSeats False (\<lambda>seatNumber movie showTime. False) empty_database)
          = map catalog_seat catalog"
    and "length (seats (initializeSeats False (\<lambda>seatNumber movie showTime. False)
          empty_database)) = 600"
    by blast+
  moreover from n initializeSeats_catalog [of seeded False "\<lambda>seatNumber movie showTime. False"]
  have "initializeSeats False (\<lambda>seatNumber movie showTime. False) seeded = seeded"
    by blast
  ultimately show ?thesis using e n by blast
qed


section \<open>What every reachable state satisfies\<close>

lemma wf_seeded: "wf_database seeded"
  using catalog_keys_distinct by (simp add: wf_database_def seeded_eq)

lemma rollback_same [simp]: "rollback db db = db"
  by (simp add: rollback_def)

lemma rollback_tables [simp]:
  "seats (rollback db0 db) = seats db0" "bookings (rollback db0 db) = bookings db0"
  "next_id (rollback db0 db) = next_id db"
  by (simp_all add: rollback_def)

lemma wf_rollback: "wf_database db0 \<Longrightarrow> next_id db0 \<le> next_id db \<Longrightarrow> wf_database (rollback db0 db)"
  by (fastforce simp: wf_database_def)

lemma updateSeat_tables [simp]:
  "bookings (updateSeat v n m t db) = bookings db" "next_id (updateSeat v n m t db) = next_id db"
  "map unique_seat (seats (updateSeat v n m t db)) = map unique_seat (seats db)"
  by (simp_all add: updateSeat_def unique_seat_def)

lemma seats_updateSeat:
  "seats (updateSeat v n m t db)
     = map (\<lambda>s. if at_seat n m t s then s\<lparr>s_is_available := v\<rparr> else s) (seats db)"
  by (simp add: updateSeat_def)

lemma bex_map_cong:
  "(\<And>x. P (g x) = P x) \<Longrightarrow> (\<exists>s \<in> set (map g xs). P s) = (\<exists>s \<in> set xs. P s)"
  by (induction xs) auto

lemma at_seat_updateSeat:
  "(\<exists>s \<in> set (seats (updateSeat v n m t db)). at_seat n' m' t' s) \<longleftrightarrow>
   (\<exists>s \<in> set (seats db). at_seat n' m' t' s)"
  unfolding seats_updateSeat by (rule bex_map_cong) (simp add: at_seat_def)

lemma wf_updateSeat: "wf_database db \<Longrightarrow> wf_database (updateSeat v n m t db)"
  unfolding wf_database_def by (simp add: at_seat_updateSeat)

lemma checkSeat_exists:
  "checkSeat n m t db \<noteq> [] \<Longrightarrow> \<exists>s \<in> set (seats db). at_seat n m t s"
  by (auto simp: checkSeat_def filter_empty_conv)

lemma wf_createBooking:
  assumes "wf_database db" and "createBooking e now u em p m t n db = Some (i, db1)"
    and "\<exists>s \<in> set (seats db). at_seat n m t s"
  shows "wf_database db1 \<and> next_id db \<le> next_id db1"
proof -
  from assms(2) have fresh: "(n, t, m) \<notin> set (map unique_seat_show (bookings db))"
    and db1: "db1 = db\<lparr>bookings := bookings db @
              [\<lparr>b_id = next_id db, b_user_name = u, b_email = em, b_phone = p,
                b_movie_name = m, b_show_time = t, b_seat_number = n,
                b_booking_date = now, b_status = confirmed\<rparr>],
           next_id := Suc (next_id db)\<rparr>"
    by (auto simp: createBooking_def split: if_splits)
  from assms(1) have "\<forall>b \<in> set (bookings db). b_id b \<noteq> next_id db"
    by (auto simp: wf_database_def)
  with assms(1,3) fresh show ?thesis
    unfolding db1 wf_database_def
    by (auto simp: unique_seat_show_def image_iff less_Suc_eq)
qed

lemma wf_updateBookingStatus: "wf_database db \<Longrightarrow> wf_database (updateBookingStatus i db)"
proof -
  have k: "map unique_seat_show (bookings (updateBookingStatus i db)) = map unique_seat_show (bookings db)"
    and d: "map b_id (bookings (updateBookingStatus i db)) = map b_id (bookings db)"
    by (simp_all add: updateBookingStatus_def unique_seat_show_def)
  assume "wf_database db"
  then show ?thesis
    unfolding wf_database_def k d by (auto simp: updateBookingStatus_def)
qed

lemma wf_updateContact: "wf_database db \<Longrightarrow> wf_database (updateContact u e p i db)"
proof -
  have k: "map unique_seat_show (bookings (updateContact u e p i db)) = map unique_seat_show (bookings db)"
    and d: "map b_id (bookings (updateContact u e p i db)) = map b_id (bookings db)"
    by (simp_all add: updateContact_def unique_seat_show_def)
  assume "wf_database db"
  then show ?thesis
    unfolding wf_database_def k d by (auto simp: updateContact_def)
qed

lemma wf_deleteBooking: "wf_database db \<Longrightarrow> wf_database (deleteBooking i db)"
  unfolding wf_database_def by (auto simp: deleteBooking_def distinct_map_filter)

lemma next_id_statements [simp]:
  "next_id (updateBookingStatus i db) = next_id db"
  "next_id (deleteBooking i db) = next_id db"
  "next_id (updateContact u e p i db) = next_id db"
  by (simp_all add: updateBookingStatus_def deleteBooking_def updateContact_def)

lemma wf_post_api_bookings:
  assumes "wf_database db"
  shows "wf_database (snd (post_api_bookings f now u e p m t n db))"
proof (cases "createBooking (write_fails f) now u e p m t n db")
  case None
  with assms show ?thesis by (simp add: post_api_bookings_def Let_def)
next
  case (Some r)
  obtain i db1 where r: "r = (i, db1)" by (cases r) auto
  show ?thesis
  proof (cases "checkSeat n m t db = []")
    case True
    with assms show ?thesis by (simp add: post_api_bookings_def Let_def)
  next
    case False
    from wf_createBooking [OF assms Some [unfolded r] checkSeat_exists [OF False]]
    have "wf_database db1" "next_id db \<le> next_id db1" by simp_all
    with assms Some r show ?thesis
      by (simp add: post_api_bookings_def Let_def wf_rollback wf_updateSeat)
  qed
qed

lemma wf_put_api_bookings_id_cancel:
  "wf_database db \<Longrightarrow> wf_database (snd (put_api_bookings_id_cancel f i db))"
  by (simp add: put_api_bookings_id_cancel_def Let_def wf_rollback wf_updateSeat wf_updateBookingStatus)

lemma wf_delete_api_bookings_id:
  "wf_database db \<Longrightarrow> wf_database (snd (delete_api_bookings_id f i db))"
  by (simp add: delete_api_bookings_id_def Let_def wf_rollback wf_updateSeat wf_deleteBooking)

lemma wf_put_api_bookings_id:
  "wf_database db \<Longrightarrow> wf_database (snd (put_api_bookings_id f i u e p db))"
  by (simp add: put_api_bookings_id_def wf_updateContact)

lemma reachable_wf: "reachable db \<Longrightarrow> wf_database db"
  by (induction rule: reachable.induct)
    (simp_all add: wf_seeded wf_post_api_bookings wf_put_api_bookings_id_cancel
       wf_delete_api_bookings_id wf_put_api_bookings_id)


lemma filter_key_le_1:
  "distinct (map k xs) \<Longrightarrow> length (filter (\<lambda>x. k x = v \<and> Q x) xs) \<le> 1"
proof (induction xs)
  case Nil
  then show ?case by simp
next
  case (Cons x xs)
  show ?case
  proof (cases "k x = v")
    case True
    with Cons.prems have "\<forall>y \<in> set xs. k y \<noteq> v"
      by (auto simp: image_iff)
    then have "filter (\<lambda>x. k x = v \<and> Q x) xs = []"
      by (simp add: filter_empty_conv)
    then show ?thesis by simp
  next
    case False
    with Cons show ?thesis by simp
  qed
qed

text \<open>
  Claim C1. In every state reached from the seeded catalog by Reserve, Cancel, Delete and
  UpdateContactInfo requests, whatever storage errors they meet, a seat triple has at most
  one booking with status confirmed.
\<close>

theorem one_confirmed_booking_per_seat:
  "reachable db \<Longrightarrow> length (confirmed_bookings movieName showTime seatNumber db) \<le> 1"
proof -
  assume "reachable db"
  then have "distinct (map unique_seat_show (bookings db))"
    using reachable_wf by (simp add: wf_database_def)
  from filter_key_le_1 [OF this, of "(seatNumber, showTime, movieName)" "\<lambda>b. b_status b = confirmed"]
  show ?thesis
    by (simp add: confirmed_bookings_def unique_seat_show_def conj_commute conj_left_commute)
qed

lemma filter_key_unique:
  "distinct (map k xs) \<Longrightarrow> x \<in> set xs \<Longrightarrow> filter (\<lambda>y. k y = k x) xs = [x]"
proof (induction xs)
  case Nil
  then show ?case by simp
next
  case (Cons a xs)
  show ?case
  proof (cases "a = x")
    case True
    with Cons.prems have "\<forall>y \<in> set xs. k y \<noteq> k x"
      by (auto simp: image_iff)
    then have "filter (\<lambda>y. k y = k x) xs = []"
      by (simp add: filter_empty_conv)
    with True show ?thesis by simp
  next
    case False
    with Cons.prems have "x \<in> set xs" "k a \<noteq> k x" by auto
    with Cons show ?thesis by simp
  qed
qed

lemma at_seat_key: "at_seat n m t s \<longleftrightarrow> unique_seat s = (n, t, m)"
  by (auto simp: at_seat_def unique_seat_def)

lemma filter_at_seat:
  assumes "distinct (map unique_seat xs)" and "s \<in> set xs" and "at_seat n m t s"
  shows "filter (at_seat n m t) xs = [s]"
proof -
  from assms(3) have "at_seat n m t = (\<lambda>y. unique_seat y = unique_seat s)"
    by (auto simp: at_seat_key)
  with filter_key_unique [OF assms(1,2)] show ?thesis by simp
qed

lemma join_seats_single:
  assumes "wf_database db" and "b \<in> set (bookings db)"
  shows "\<exists>s \<in> set (seats db). join_seats db b = [(b, s_price s, s_seat_type s)]"
proof -
  from assms obtain s where s: "s \<in> set (seats db)"
    "at_seat (b_seat_number b) (b_movie_name b) (b_show_time b) s"
    by (auto simp: wf_database_def)
  from assms(1) have "distinct (map unique_seat (seats db))"
    by (simp add: wf_database_def)
  from filter_at_seat [OF this s] s(1) show ?thesis
    by (auto simp: join_seats_def)
qed

lemma join_all:
  assumes "wf_database db" and "set bs \<subseteq> set (bookings db)"
  shows "map fst (concat (map (join_seats db) bs)) = bs"
  using assms(2)
proof (induction bs)
  case Nil
  then show ?case by simp
next
  case (Cons b bs)
  then have "b \<in> set (bookings db)" by simp
  from join_seats_single [OF assms(1) this] Cons show ?case by auto
qed

lemma getBooking_single:
  assumes "wf_database db" and "b \<in> set (bookings db)"
  shows "getBooking (b_id b) db = [b]"
proof -
  from assms(1) have "distinct (map b_id (bookings db))" by (simp add: wf_database_def)
  from filter_key_unique [OF this assms(2)] show ?thesis by (simp add: getBooking_def)
qed

text \<open>
  Claim C10. In every reachable state each booking row is on a seat triple of the seats
  table, so the two reads that join bookings to seats lose nothing: the listing returns
  every booking row exactly once, and the read by id returns the booking of that id.
\<close>

theorem bookings_reference_seats:
  assumes "reachable db"
  shows "(\<forall>b \<in> set (bookings db). \<exists>s \<in> set (seats db).
            s_seat_number s = b_seat_number b \<and> s_movie_name s = b_movie_name b \<and>
            s_show_time s = b_show_time b) \<and>
         (\<exists>rows. get_api_bookings no_failure db = Inr rows \<and>
            mset (map fst rows) = mset (bookings db)) \<and>
         (\<forall>b \<in> set (bookings db). \<exists>row.
            get_api_bookings_id no_failure (b_id b) db = Inr row \<and> fst row = b)"
proof (intro conjI ballI)
  from assms have wf: "wf_database db" by (rule reachable_wf)
  {
    fix b assume "b \<in> set (bookings db)"
    with wf show "\<exists>s \<in> set (seats db).
            s_seat_number s = b_seat_number b \<and> s_movie_name s = b_movie_name b \<and>
            s_show_time s = b_show_time b"
      by (auto simp: wf_database_def at_seat_def)
  next
    have "mset (map fst (rev (sort_key (\<lambda>r. b_booking_date (fst r))
            (concat (map (join_seats db) (bookings db))))))
          = mset (map fst (concat (map (join_seats db) (bookings db))))"
      by simp
    also have "\<dots> = mset (bookings db)"
      using join_all [OF wf subset_refl] by simp
    finally show "\<exists>rows. get_api_bookings no_failure db = Inr rows \<and>
            mset (map fst rows) = mset (bookings db)"
      by (simp add: get_api_bookings_def no_failure_def)
  next
    fix b assume b: "b \<in> set (bookings db)"
    from join_seats_single [OF wf b] getBooking_single [OF wf b]
    show "\<exists>row. get_api_bookings_id no_failure (b_id b) db = Inr row \<and> fst row = b"
      by (auto simp: get_api_bookings_id_def no_failure_def)
  }
qed


section \<open>Running the handlers on the seeded catalog\<close>

lemma no_failure_simps [simp]:
  "\<not> begin_fails no_failure" "\<not> fetch_fails no_failure" "\<not> write_fails no_failure"
  "\<not> seat_update_fails no_failure" "\<not> commit_fails no_failure"
  by (simp_all add: no_failure_def)

lemma seeded_tables [simp]: "bookings seeded = []" "next_id seeded = 1"
  by (simp_all add: seeded_eq)

lemma A1_in_catalog: "(''Batman'', ''2:00 PM'', ''A'', 1) \<in> set catalog"
  unfolding catalog_def set_product by (simp add: movies_def showTimes_def seatRows_def)

lemma checkSeat_available:
  assumes "distinct (map unique_seat (seats db))" and "s \<in> set (seats db)"
  shows "checkSeat (s_seat_number s) (s_movie_name s) (s_show_time s) db = [s_is_available s]"
proof -
  have "at_seat (s_seat_number s) (s_movie_name s) (s_show_time s) s"
    by (simp add: at_seat_def)
  from filter_at_seat [OF assms this] show ?thesis by (simp add: checkSeat_def)
qed

lemma checkSeat_seeded_A1 [simp]: "checkSeat ''A1'' ''Batman'' ''2:00 PM'' seeded = [True]"
proof -
  have d: "distinct (map unique_seat (seats seeded))"
    using wf_seeded by (simp add: wf_database_def)
  have m: "catalog_seat (''Batman'', ''2:00 PM'', ''A'', 1) \<in> set (seats seeded)"
    using A1_in_catalog by (simp add: seeded_eq)
  from checkSeat_available [OF d m] show ?thesis
    by (simp add: catalog_seat_def toString_digits)
qed

lemma checkSeat_frame [simp]:
  "checkSeat n m t (db\<lparr>bookings := bs\<rparr>) = checkSeat n m t db"
  "checkSeat n m t (db\<lparr>next_id := i\<rparr>) = checkSeat n m t db"
  "checkSeat n m t (updateBookingStatus j db) = checkSeat n m t db"
  "checkSeat n m t (deleteBooking j db) = checkSeat n m t db"
  "checkSeat n m t (updateContact u e p j db) = checkSeat n m t db"
  by (simp_all add: checkSeat_def updateBookingStatus_def deleteBooking_def updateContact_def)

lemma checkSeat_updateSeat_same [simp]:
  "checkSeat n m t (updateSeat v n m t db) = map (\<lambda>a. v) (checkSeat n m t db)"
proof -
  have "map s_is_available (filter (at_seat n m t)
          (map (\<lambda>s. if at_seat n m t s then s\<lparr>s_is_available := v\<rparr> else s) xs))
        = map (\<lambda>a. v) (map s_is_available (filter (at_seat n m t) xs))" for xs
    by (induction xs) (simp_all add: at_seat_def)
  then show ?thesis by (simp add: checkSeat_def updateSeat_def)
qed

lemma post_api_bookings_success:
  assumes "\<not> begin_fails f" "\<not> fetch_fails f" "\<not> write_fails f"
    "\<not> seat_update_fails f" "\<not> commit_fails f"
    and "checkSeat seatNumber movieName showTime db = [True]"
    and "(seatNumber, showTime, movieName) \<notin> set (map unique_seat_show (bookings db))"
  shows "post_api_bookings f now userName email phone movieName showTime seatNumber db =
    (Booked (next_id db),
     updateSeat False seatNumber movieName showTime
       (db\<lparr>bookings := bookings db @
              [\<lparr>b_id = next_id db, b_user_name = userName, b_email = email, b_phone = phone,
                b_movie_name = movieName, b_show_time = showTime, b_seat_number = seatNumber,
                b_booking_date = now, b_status = confirmed\<rparr>],
           next_id := Suc (next_id db)\<rparr>))"
  using assms by (simp add: post_api_bookings_def createBooking_def Let_def)

lemma post_api_bookings_refused:
  assumes "\<not> begin_fails f" "\<not> fetch_fails f"
    and "checkSeat seatNumber movieName showTime db = [True]"
    and "(seatNumber, showTime, movieName) \<in> set (map unique_seat_show (bookings db))"
  shows "post_api_bookings f now userName email phone movieName showTime seatNumber db =
    (Error 500 ''Failed to create booking'', db)"
  using assms by (simp add: post_api_bookings_def createBooking_def Let_def)

lemma reserved_A1_eq:
  "post_api_bookings no_failure 100 ''Asha'' ''asha@example.com''
     ''9800000000'' ''Batman'' ''2:00 PM'' ''A1'' seeded = (Booked 1, reserved_A1)"
  "reserved_A1 = updateSeat False ''A1'' ''Batman'' ''2:00 PM''
     (seeded\<lparr>bookings :=
        [\<lparr>b_id = 1, b_user_name = ''Asha'', b_email = ''asha@example.com'',
          b_phone = ''9800000000'', b_movie_name = ''Batman'', b_show_time = ''2:00 PM'',
          b_seat_number = ''A1'', b_booking_date = 100, b_status = confirmed\<rparr>],
        next_id := 2\<rparr>)"
  unfolding reserved_A1_def
  by (simp_all add: post_api_bookings_success numeral_2_eq_2)

lemma cancelled_A1_eq:
  "put_api_bookings_id_cancel no_failure 1 reserved_A1 =
     (Success ''Booking cancelled successfully'', cancelled_A1)"
  "bookings cancelled_A1 =
        [\<lparr>b_id = 1, b_user_name = ''Asha'', b_email = ''asha@example.com'',
          b_phone = ''9800000000'', b_movie_name = ''Batman'', b_show_time = ''2:00 PM'',
          b_seat_number = ''A1'', b_booking_date = 100, b_status = cancelled\<rparr>]"
  "checkSeat ''A1'' ''Batman'' ''2:00 PM'' cancelled_A1 = [True]"
  unfolding cancelled_A1_def
  by (simp_all add: put_api_bookings_id_cancel_def reserved_A1_eq(2) getConfirmedBooking_def
        updateBookingStatus_def Let_def)


lemma reachable_reserved_A1: "reachable reserved_A1"
  unfolding reserved_A1_def by (rule reachable.Reserve [OF reachable.Seeded])

lemma reachable_cancelled_A1: "reachable cancelled_A1"
  unfolding cancelled_A1_def by (rule reachable.Cancel [OF reachable_reserved_A1])

lemma bookings_reserved_A1:
  "bookings reserved_A1 =
        [\<lparr>b_id = 1, b_user_name = ''Asha'', b_email = ''asha@example.com'',
          b_phone = ''9800000000'', b_movie_name = ''Batman'', b_show_time = ''2:00 PM'',
          b_seat_number = ''A1'', b_booking_date = 100, b_status = confirmed\<rparr>]"
  by (simp add: reserved_A1_eq(2))

text \<open>After one reservation seat A1 has its one confirmed booking.\<close>

theorem one_confirmed_booking_per_seat_witness:
  "reachable reserved_A1 \<and>
   length (confirmed_bookings ''Batman'' ''2:00 PM'' ''A1'' reserved_A1) = 1 \<and>
   length (confirmed_bookings ''Batman'' ''2:00 PM'' ''A1'' reserved_A1) \<le> 1"
  using one_confirmed_booking_per_seat [OF reachable_reserved_A1, of "''Batman''" "''2:00 PM''" "''A1''"]
    reachable_reserved_A1
  by (simp add: confirmed_bookings_def bookings_reserved_A1)

text \<open>The state after one reservation has a booking row, and the reads return it.\<close>

theorem bookings_reference_seats_witness:
  "reachable reserved_A1 \<and>
   (\<exists>s. s \<in> set (seats reserved_A1) \<and> s_seat_number s = ''A1'' \<and>
        s_movie_name s = ''Batman'' \<and> s_show_time s = ''2:00 PM'') \<and>
   (\<exists>rows. get_api_bookings no_failure reserved_A1 = Inr rows \<and>
        map (\<lambda>r. b_id (fst r)) rows = [1]) \<and>
   (\<exists>row. get_api_bookings_id no_failure 1 reserved_A1 = Inr row \<and>
        b_user_name (fst row) = ''Asha'')"
proof -
  note inst = bookings_reference_seats [OF reachable_reserved_A1, unfolded bookings_reserved_A1]
  from inst have "\<exists>s. s \<in> set (seats reserved_A1) \<and> s_seat_number s = ''A1'' \<and>
        s_movie_name s = ''Batman'' \<and> s_show_time s = ''2:00 PM''"
    by auto
  moreover from inst obtain rows where rows: "get_api_bookings no_failure reserved_A1 = Inr rows"
    "mset (map fst rows) = mset [\<lparr>b_id = 1, b_user_name = ''Asha'', b_email = ''asha@example.com'',
          b_phone = ''9800000000'', b_movie_name = ''Batman'', b_show_time = ''2:00 PM'',
          b_seat_number = ''A1'', b_booking_date = 100, b_status = confirmed\<rparr>]"
    by blast
  from rows(2) have "map (\<lambda>r. b_id (fst r)) rows = [1]"
    by (cases rows) (auto simp: single_is_union)
  with rows(1) have "\<exists>rows. get_api_bookings no_failure reserved_A1 = Inr rows \<and>
        map (\<lambda>r. b_id (fst r)) rows = [1]"
    by simp
  moreover from inst have "\<exists>row. get_api_bookings_id no_failure 1 reserved_A1 = Inr row \<and>
        b_user_name (fst row) = ''Asha''"
    by auto
  ultimately show ?thesis using reachable_reserved_A1 by blast
qed

text \<open>
  Claim C3. Reserve, Cancel, Reserve again on seat A1 of the seeded catalog, with no storage
  error: the first Reserve returns booking 1, Cancel succeeds and the seat is available
  again, but the row of booking 1 stays in the table with status cancelled and still holds
  the \<^verbatim>\<open>unique_seat_show\<close> key. The second Reserve finds the seat available, its
  \<^verbatim>\<open>INSERT\<close> is refused, and it answers 500 \<^verbatim>\<open>Failed to create booking\<close>; the seat
  has no confirmed booking.
\<close>

theorem reserve_cancel_reserve_refused:
  "post_api_bookings no_failure 100 ''Asha'' ''asha@example.com'' ''9800000000''
     ''Batman'' ''2:00 PM'' ''A1'' seeded = (Booked 1, reserved_A1) \<and>
   put_api_bookings_id_cancel no_failure 1 reserved_A1 =
     (Success ''Booking cancelled successfully'', cancelled_A1) \<and>
   checkSeat ''A1'' ''Batman'' ''2:00 PM'' cancelled_A1 = [True] \<and>
   post_api_bookings no_failure 200 ''Bina'' ''bina@example.com'' ''9811111111''
     ''Batman'' ''2:00 PM'' ''A1'' cancelled_A1
     = (Error 500 ''Failed to create booking'', cancelled_A1) \<and>
   confirmed_bookings ''Batman'' ''2:00 PM'' ''A1'' cancelled_A1 = []"
proof (intro conjI)
  show "post_api_bookings no_failure 100 ''Asha'' ''asha@example.com'' ''9800000000''
     ''Batman'' ''2:00 PM'' ''A1'' seeded = (Booked 1, reserved_A1)"
    by (rule reserved_A1_eq(1))
  show "put_api_bookings_id_cancel no_failure 1 reserved_A1 =
     (Success ''Booking cancelled successfully'', cancelled_A1)"
    by (rule cancelled_A1_eq(1))
  show "checkSeat ''A1'' ''Batman'' ''2:00 PM'' cancelled_A1 = [True]"
    by (rule cancelled_A1_eq(3))
  show "post_api_bookings no_failure 200 ''Bina'' ''bina@example.com'' ''9811111111''
     ''Batman'' ''2:00 PM'' ''A1'' cancelled_A1
     = (Error 500 ''Failed to create booking'', cancelled_A1)"
    by (simp add: cancelled_A1_eq(2,3) post_api_bookings_refused unique_seat_show_def)
  show "confirmed_bookings ''Batman'' ''2:00 PM'' ''A1'' cancelled_A1 = []"
    by (simp add: confirmed_bookings_def cancelled_A1_eq(2))
qed

text \<open>
  Claim C4. In the reachable state \<open>cancelled_A1\<close> seat A1 exists and is available, and
  no statement meets a storage error; all the same a Reserve of that seat, for whatever
  customer, answers 500 \<^verbatim>\<open>Failed to create booking\<close>, inserts no row and leaves the seat
  available.
\<close>

theorem reserve_available_seat_refused:
  "reachable cancelled_A1 \<and>
   (\<exists>s \<in> set (seats cancelled_A1).
      s_seat_number s = ''A1'' \<and> s_movie_name s = ''Batman'' \<and> s_show_time s = ''2:00 PM'' \<and>
      s_is_available s) \<and>
   fst (post_api_bookings no_failure now userName email phone
          ''Batman'' ''2:00 PM'' ''A1'' cancelled_A1) = Error 500 ''Failed to create booking'' \<and>
   bookings (snd (post_api_bookings no_failure now userName email phone
          ''Batman'' ''2:00 PM'' ''A1'' cancelled_A1)) = bookings cancelled_A1 \<and>
   checkSeat ''A1'' ''Batman'' ''2:00 PM'' (snd (post_api_bookings no_failure now userName email
          phone ''Batman'' ''2:00 PM'' ''A1'' cancelled_A1)) = [True]"
proof -
  have "\<exists>s \<in> set (seats cancelled_A1). at_seat ''A1'' ''Batman'' ''2:00 PM'' s \<and> s_is_available s"
    using cancelled_A1_eq(3) by (auto simp: checkSeat_def filter_eq_Cons_iff)
  then have "\<exists>s \<in> set (seats cancelled_A1).
      s_seat_number s = ''A1'' \<and> s_movie_name s = ''Batman'' \<and> s_show_time s = ''2:00 PM'' \<and>
      s_is_available s"
    by (simp add: at_seat_def)
  moreover have "post_api_bookings no_failure now userName email phone
          ''Batman'' ''2:00 PM'' ''A1'' cancelled_A1 = (Error 500 ''Failed to create booking'', cancelled_A1)"
    by (simp add: cancelled_A1_eq(2,3) post_api_bookings_refused unique_seat_show_def)
  ultimately show ?thesis
    using reachable_cancelled_A1 by (simp add: cancelled_A1_eq(2,3))
qed

text \<open>
  Claim C5. When the availability read of a Reserve meets a storage error, the handler
  leaves the database as it was but answers 400 \<^verbatim>\<open>Seat not found\<close>, the signal of a
  seat that does not exist, and not a 500; so also for seat A1 of the seeded catalog, which
  does exist.
\<close>

theorem reserve_read_error_says_seat_not_found:
  "post_api_bookings (no_failure\<lparr>fetch_fails := True\<rparr>) now userName email phone
     movieName showTime seatNumber db = (SeatNotFound, db) \<and>
   \<not> TransactionFailed SeatNotFound \<and>
   post_api_bookings (no_failure\<lparr>fetch_fails := True\<rparr>) 100 ''Asha'' ''asha@example.com''
     ''9800000000'' ''Batman'' ''2:00 PM'' ''A1'' seeded = (Error 400 ''Seat not found'', seeded)"
  by (simp add: post_api_bookings_def no_failure_def SeatNotFound_def Let_def)


text \<open>A Reserve that does not answer with a booking leaves both tables as they were.\<close>

lemma post_api_bookings_rolls_back:
  assumes "\<forall>i. fst (post_api_bookings f now userName email phone movieName showTime seatNumber db)
             \<noteq> Booked i"
  shows "seats (snd (post_api_bookings f now userName email phone movieName showTime seatNumber db))
           = seats db \<and>
         bookings (snd (post_api_bookings f now userName email phone movieName showTime seatNumber db))
           = bookings db"
  using assms
  by (auto simp: post_api_bookings_def Let_def split: if_splits option.splits)

text \<open>
  A storage error of the insert or of the seat update, and a refused insert, are answered
  with a 500, as is one of \<^verbatim>\<open>beginTransaction\<close> or of the commit.
\<close>

lemma post_api_bookings_write_error:
  assumes "\<not> fetch_fails f" and "checkSeat seatNumber movieName showTime db = a # as" and "a"
    and "begin_fails f \<or> write_fails f \<or> seat_update_fails f \<or> commit_fails f \<or>
         (seatNumber, showTime, movieName) \<in> set (map unique_seat_show (bookings db))"
  shows "TransactionFailed
          (fst (post_api_bookings f now userName email phone movieName showTime seatNumber db))"
  using assms
  by (auto simp: post_api_bookings_def createBooking_def Let_def)

lemma delete_not_found:
  assumes "\<not> begin_fails f" and "getBooking bookingId db = []"
  shows "delete_api_bookings_id f bookingId db = (NotFound, db)"
  using assms by (simp add: delete_api_bookings_id_def NotFound_def Let_def)

lemma put_api_bookings_id_not_found:
  assumes "\<not> write_fails f" and "getBooking bookingId db = []"
  shows "put_api_bookings_id f bookingId userName email phone db = (NotFound, db)"
  using assms by (simp add: put_api_bookings_id_def NotFound_def)

section \<open>Cancel and Delete\<close>

lemma bookings_examples:
  "bookings reserved_A1 = [booking_1]"
  "bookings cancelled_A1 = [booking_1\<lparr>b_status := cancelled\<rparr>]"
  by (simp_all add: bookings_reserved_A1 cancelled_A1_eq(2) booking_1_def)

lemma booking_1_simps [simp]:
  "b_id booking_1 = 1" "b_status booking_1 = confirmed"
  "b_seat_number booking_1 = ''A1''" "b_movie_name booking_1 = ''Batman''"
  "b_show_time booking_1 = ''2:00 PM''" "b_user_name booking_1 = ''Asha''"
  by (simp_all add: booking_1_def)

lemma cancel_rejected_iff:
  assumes "\<not> begin_fails f" and "\<not> fetch_fails f"
  shows "fst (put_api_bookings_id_cancel f bookingId db) = NotCancellable \<longleftrightarrow>
         getConfirmedBooking bookingId db = []"
  using assms by (simp add: put_api_bookings_id_cancel_def NotCancellable_def Let_def)

lemma cancel_rejected_unchanged:
  "fst (put_api_bookings_id_cancel f bookingId db) = NotCancellable \<Longrightarrow>
   snd (put_api_bookings_id_cancel f bookingId db) = db"
  by (auto simp: put_api_bookings_id_cancel_def NotCancellable_def Let_def split: if_splits)

text \<open>
  When \<^verbatim>\<open>beginTransaction\<close> and the fetch of the booking meet no storage error, Cancel
  answers NotCancellable exactly when no booking with that id and status confirmed exists
  (there is no such id, or the booking is already cancelled). Whenever Cancel answers
  NotCancellable, whatever storage errors it meets, the database it leaves is the one it
  found: bookings and seats are unchanged.
\<close>

lemma cancel_not_cancellable:
  "(\<not> begin_fails f \<and> \<not> fetch_fails f \<longrightarrow>
      (fst (put_api_bookings_id_cancel f bookingId db) = NotCancellable \<longleftrightarrow>
       \<not> (\<exists>b \<in> set (bookings db). b_id b = bookingId \<and> b_status b = confirmed))) \<and>
   (fst (put_api_bookings_id_cancel f bookingId db) = NotCancellable \<longrightarrow>
      snd (put_api_bookings_id_cancel f bookingId db) = db)"
proof (intro conjI impI)
  assume "\<not> begin_fails f \<and> \<not> fetch_fails f"
  then have "fst (put_api_bookings_id_cancel f bookingId db) = NotCancellable \<longleftrightarrow>
         getConfirmedBooking bookingId db = []"
    by (simp add: cancel_rejected_iff)
  also have "\<dots> \<longleftrightarrow> \<not> (\<exists>b \<in> set (bookings db). b_id b = bookingId \<and> b_status b = confirmed)"
    by (auto simp: getConfirmedBooking_def filter_empty_conv)
  finally show "fst (put_api_bookings_id_cancel f bookingId db) = NotCancellable \<longleftrightarrow>
       \<not> (\<exists>b \<in> set (bookings db). b_id b = bookingId \<and> b_status b = confirmed)" .
next
  assume "fst (put_api_bookings_id_cancel f bookingId db) = NotCancellable"
  then show "snd (put_api_bookings_id_cancel f bookingId db) = db"
    by (rule cancel_rejected_unchanged)
qed

text \<open>An id that was never assigned, a cancelled booking and a confirmed one.\<close>

lemma cancel_not_cancellable_examples:
  "\<not> begin_fails no_failure \<and> \<not> fetch_fails no_failure \<and>
   fst (put_api_bookings_id_cancel no_failure 7 reserved_A1) = NotCancellable \<and>
   snd (put_api_bookings_id_cancel no_failure 7 reserved_A1) = reserved_A1 \<and>
   fst (put_api_bookings_id_cancel no_failure 1 cancelled_A1) = NotCancellable \<and>
   snd (put_api_bookings_id_cancel no_failure 1 cancelled_A1) = cancelled_A1 \<and>
   fst (put_api_bookings_id_cancel no_failure 1 reserved_A1) \<noteq> NotCancellable"
  using cancel_not_cancellable [of no_failure 7 reserved_A1]
    cancel_not_cancellable [of no_failure 1 cancelled_A1]
    cancel_not_cancellable [of no_failure 1 reserved_A1]
  by (simp add: bookings_examples)

text \<open>
  Claim C6. When the fetch of the booking meets a storage error, Cancel answers
  NotCancellable, 404 \<^verbatim>\<open>Booking not found or already cancelled\<close> and not a 500,
  whatever the id and the database, and leaves the database as it was. So it does for
  booking 1 in the reachable state \<open>reserved_A1\<close>, where a booking with that id and status
  confirmed exists: there NotCancellable is not the answer to a missing or cancelled
  booking.
\<close>

theorem cancel_read_error_says_not_cancellable:
  "put_api_bookings_id_cancel (no_failure\<lparr>fetch_fails := True\<rparr>) bookingId db
     = (NotCancellable, db) \<and>
   \<not> TransactionFailed NotCancellable \<and>
   reachable reserved_A1 \<and>
   booking_1 \<in> set (bookings reserved_A1) \<and> b_id booking_1 = 1 \<and>
   b_status booking_1 = confirmed \<and>
   put_api_bookings_id_cancel (no_failure\<lparr>fetch_fails := True\<rparr>) 1 reserved_A1
     = (Error 404 ''Booking not found or already cancelled'', reserved_A1)"
  using reachable_reserved_A1
  by (simp add: put_api_bookings_id_cancel_def no_failure_def NotCancellable_def Let_def
        bookings_examples)

lemma delete_existing:
  assumes "getBooking bookingId db = b # bs"
  shows "delete_api_bookings_id no_failure bookingId db =
    (Success ''Booking deleted successfully'',
     if b_status b = confirmed
     then updateSeat True (b_seat_number b) (b_movie_name b) (b_show_time b)
            (deleteBooking bookingId db)
     else deleteBooking bookingId db)"
  using assms by (simp add: delete_api_bookings_id_def Let_def)

text \<open>
  Claim C7. With no storage error, Delete of an existing booking (ids being the primary
  key) succeeds and removes exactly the row of that id. If the booking was confirmed when
  fetched, the seats of its triple are set available and every other seat is as before;
  if it was cancelled, the seats table is as before.
\<close>

theorem delete_releases_confirmed_seat_only:
  assumes "distinct (map b_id (bookings db))" and "b \<in> set (bookings db)"
  shows "fst (delete_api_bookings_id no_failure (b_id b) db)
           = Success ''Booking deleted successfully'' \<and>
         bookings (snd (delete_api_bookings_id no_failure (b_id b) db))
           = filter (\<lambda>x. b_id x \<noteq> b_id b) (bookings db) \<and>
         b \<notin> set (bookings (snd (delete_api_bookings_id no_failure (b_id b) db))) \<and>
         seats (snd (delete_api_bookings_id no_failure (b_id b) db))
           = (if b_status b = confirmed
              then map (\<lambda>s. if s_seat_number s = b_seat_number b \<and>
                               s_movie_name s = b_movie_name b \<and>
                               s_show_time s = b_show_time b
                            then s\<lparr>s_is_available := True\<rparr> else s) (seats db)
              else seats db)"
proof -
  from filter_key_unique [OF assms] have "getBooking (b_id b) db = [b]"
    by (simp add: getBooking_def)
  from delete_existing [OF this] show ?thesis
    by (simp add: deleteBooking_def updateSeat_def at_seat_def)
qed

text \<open>
  Deleting the confirmed booking 1 frees seat A1, which was taken; deleting it after it
  was cancelled leaves every seat alone.
\<close>

theorem delete_releases_confirmed_seat_only_witness:
  "distinct (map b_id (bookings reserved_A1)) \<and> booking_1 \<in> set (bookings reserved_A1) \<and>
   b_status booking_1 = confirmed \<and>
   checkSeat ''A1'' ''Batman'' ''2:00 PM'' reserved_A1 = [False] \<and>
   bookings (snd (delete_api_bookings_id no_failure 1 reserved_A1)) = [] \<and>
   checkSeat ''A1'' ''Batman'' ''2:00 PM''
     (snd (delete_api_bookings_id no_failure 1 reserved_A1)) = [True] \<and>
   distinct (map b_id (bookings cancelled_A1)) \<and>
   booking_1\<lparr>b_status := cancelled\<rparr> \<in> set (bookings cancelled_A1) \<and>
   bookings (snd (delete_api_bookings_id no_failure 1 cancelled_A1)) = [] \<and>
   seats (snd (delete_api_bookings_id no_failure 1 cancelled_A1)) = seats cancelled_A1"
proof -
  have r: "distinct (map b_id (bookings reserved_A1))" "booking_1 \<in> set (bookings reserved_A1)"
    and c: "distinct (map b_id (bookings cancelled_A1))"
      "booking_1\<lparr>b_status := cancelled\<rparr> \<in> set (bookings cancelled_A1)"
    by (simp_all add: bookings_examples)
  note R = delete_releases_confirmed_seat_only [OF r]
  note C = delete_releases_confirmed_seat_only [OF c]
  have before: "checkSeat ''A1'' ''Batman'' ''2:00 PM'' reserved_A1 = [False]"
    by (simp add: reserved_A1_eq(2))
  have "seats (snd (delete_api_bookings_id no_failure 1 reserved_A1))
        = seats (updateSeat True ''A1'' ''Batman'' ''2:00 PM'' reserved_A1)"
    using R by (simp add: updateSeat_def at_seat_def)
  then have "checkSeat ''A1'' ''Batman'' ''2:00 PM''
     (snd (delete_api_bookings_id no_failure 1 reserved_A1))
     = checkSeat ''A1'' ''Batman'' ''2:00 PM'' (updateSeat True ''A1'' ''Batman'' ''2:00 PM'' reserved_A1)"
    by (simp add: checkSeat_def)
  then have after: "checkSeat ''A1'' ''Batman'' ''2:00 PM''
     (snd (delete_api_bookings_id no_failure 1 reserved_A1)) = [True]"
    using before by simp
  from R C r c before after show ?thesis
    by (simp add: bookings_examples)
qed


section \<open>UpdateContactInfo\<close>

lemma seats_put_api_bookings_id:
  "seats (snd (put_api_bookings_id f bookingId userName email phone db)) = seats db"
  by (simp add: put_api_bookings_id_def updateContact_def)

text \<open>
  Claim C9, as stated, fails on the server: \<^verbatim>\<open>PUT /api/bookings/1\<close> with an empty
  \<^verbatim>\<open>userName\<close> is answered with success, and the name of booking 1 is now empty.
\<close>

theorem put_api_bookings_id_writes_empty_name:
  "put_api_bookings_id no_failure 1 [] ''asha@example.com'' ''9800000000'' reserved_A1
     = (Success ''Booking updated successfully'',
        updateContact [] ''asha@example.com'' ''9800000000'' 1 reserved_A1) \<and>
   map b_user_name (bookings reserved_A1) = [''Asha''] \<and>
   map b_user_name (bookings (updateContact [] ''asha@example.com'' ''9800000000'' 1
     reserved_A1)) = [[]]"
  by (simp add: put_api_bookings_id_def getBooking_def updateContact_def bookings_examples)

lemma put_api_bookings_id_writes:
  assumes "\<not> write_fails f" and "b \<in> set (bookings db)" and "b_id b = bookingId"
  shows "put_api_bookings_id f bookingId userName email phone db
           = (Success ''Booking updated successfully'',
              db\<lparr>bookings := map (\<lambda>b. if b_id b = bookingId
                   then b\<lparr>b_user_name := userName, b_email := email, b_phone := phone\<rparr>
                   else b) (bookings db)\<rparr>)"
proof -
  from assms(2,3) have "getBooking bookingId db \<noteq> []"
    by (auto simp: getBooking_def filter_empty_conv)
  with assms(1) show ?thesis
    by (simp add: put_api_bookings_id_def updateContact_def)
qed

lemma trim_blanks: "trim [0xA0, 0x2028, 0x20, 0xFEFF] = []"
  by (simp add: trim_def is_space_def)

text \<open>
  Claim C9, amended. The check is in the client: when the name, the email or the phone of
  the edit form is empty after \<^verbatim>\<open>trim()\<close>, which strips every white space and line
  terminator of JavaScript, \<^verbatim>\<open>updateBooking\<close> shows the alert
  \<^verbatim>\<open>Please fill in all fields\<close> and sends no request, so bookings and seats are
  unchanged. The server's handler checks nothing: when its statement meets no storage
  error and a booking of the id exists, it answers success and writes the three fields it
  received, empty or not, to the rows of that id and to no other. Whatever it receives, it
  leaves the seats table unchanged.
\<close>

theorem updateBooking_rejects_empty_fields:
  "(0 < currentBookingId \<and>
    (trim editUserName = [] \<or> trim editUserEmail = [] \<or> trim editUserPhone = []) \<longrightarrow>
      updateBooking wire f (Some currentBookingId) editUserName editUserEmail editUserPhone db
        = (Some (Alert ''Please fill in all fields'' ''error''), db) \<and>
      ValidationFailed (Some (Alert ''Please fill in all fields'' ''error''))) \<and>
   (\<not> write_fails f \<and> (\<exists>b \<in> set (bookings db). b_id b = bookingId) \<longrightarrow>
      put_api_bookings_id f bookingId userName email phone db
        = (Success ''Booking updated successfully'',
           db\<lparr>bookings := map (\<lambda>b. if b_id b = bookingId
                then b\<lparr>b_user_name := userName, b_email := email, b_phone := phone\<rparr>
                else b) (bookings db)\<rparr>)) \<and>
   seats (snd (put_api_bookings_id f bookingId userName email phone db)) = seats db"
proof (intro conjI impI)
  assume "0 < currentBookingId \<and>
    (trim editUserName = [] \<or> trim editUserEmail = [] \<or> trim editUserPhone = [])"
  then show "updateBooking wire f (Some currentBookingId) editUserName editUserEmail
      editUserPhone db = (Some (Alert ''Please fill in all fields'' ''error''), db)"
    by (auto simp: updateBooking_def Let_def)
next
  show "ValidationFailed (Some (Alert ''Please fill in all fields'' ''error''))"
    by (simp add: ValidationFailed_def)
next
  assume "\<not> write_fails f \<and> (\<exists>b \<in> set (bookings db). b_id b = bookingId)"
  then show "put_api_bookings_id f bookingId userName email phone db
        = (Success ''Booking updated successfully'',
           db\<lparr>bookings := map (\<lambda>b. if b_id b = bookingId
                then b\<lparr>b_user_name := userName, b_email := email, b_phone := phone\<rparr>
                else b) (bookings db)\<rparr>)"
    using put_api_bookings_id_writes by blast
next
  show "seats (snd (put_api_bookings_id f bookingId userName email phone db)) = seats db"
    by (rule seats_put_api_bookings_id)
qed

text \<open>
  A name of a no-break space, a line separator, a blank and a byte order mark, for
  booking 1; and an empty name sent to the server for the same booking.
\<close>

theorem updateBooking_rejects_empty_fields_witness:
  "(0::nat) < 1 \<and> trim [0xA0, 0x2028, 0x20, 0xFEFF] = [] \<and>
   updateBooking (map char_of) no_failure (Some 1) [0xA0, 0x2028, 0x20, 0xFEFF]
       (js ''asha@example.com'') (js ''9800000000'') reserved_A1
     = (Some (Alert ''Please fill in all fields'' ''error''), reserved_A1) \<and>
   ValidationFailed (Some (Alert ''Please fill in all fields'' ''error'')) \<and>
   \<not> write_fails no_failure \<and> booking_1 \<in> set (bookings reserved_A1) \<and> b_id booking_1 = 1 \<and>
   put_api_bookings_id no_failure 1 [] ''asha@example.com'' ''9800000000'' reserved_A1
     = (Success ''Booking updated successfully'',
        reserved_A1\<lparr>bookings := [booking_1\<lparr>b_user_name := [],
           b_email := ''asha@example.com'', b_phone := ''9800000000''\<rparr>]\<rparr>) \<and>
   seats (snd (put_api_bookings_id no_failure 1 [] ''asha@example.com'' ''9800000000''
     reserved_A1)) = seats reserved_A1"
proof -
  have m: "booking_1 \<in> set (bookings reserved_A1)"
    by (simp add: bookings_examples)
  then have e: "\<exists>b \<in> set (bookings reserved_A1). b_id b = 1"
    by (rule bexI [rotated]) simp
  note client = updateBooking_rejects_empty_fields [where currentBookingId = 1
      and editUserName = "[0xA0, 0x2028, 0x20, 0xFEFF]"
      and editUserEmail = "js ''asha@example.com''" and editUserPhone = "js ''9800000000''"
      and wire = "map char_of" and f = no_failure and db = reserved_A1]
  note server = updateBooking_rejects_empty_fields [where f = no_failure
      and db = reserved_A1 and bookingId = 1 and userName = "[]"
      and email = "''asha@example.com''" and phone = "''9800000000''"]
  from client trim_blanks
  have "updateBooking (map char_of) no_failure (Some 1) [0xA0, 0x2028, 0x20, 0xFEFF]
       (js ''asha@example.com'') (js ''9800000000'') reserved_A1
     = (Some (Alert ''Please fill in all fields'' ''error''), reserved_A1)"
    and "ValidationFailed (Some (Alert ''Please fill in all fields'' ''error''))"
    by simp_all
  moreover from server e
  have "put_api_bookings_id no_failure 1 [] ''asha@example.com'' ''9800000000'' reserved_A1
     = (Success ''Booking updated successfully'',
        reserved_A1\<lparr>bookings := [booking_1\<lparr>b_user_name := [],
           b_email := ''asha@example.com'', b_phone := ''9800000000''\<rparr>]\<rparr>)"
    and "seats (snd (put_api_bookings_id no_failure 1 [] ''asha@example.com'' ''9800000000''
     reserved_A1)) = seats reserved_A1"
    by (simp_all add: bookings_examples)
  ultimately show ?thesis
    using m trim_blanks by simp
qed

section \<open>Reserve requests at the same time\<close>

lemma call_simps [simp]:
  "c_now asha_A1 = 100" "c_userName asha_A1 = ''Asha''" "c_email asha_A1 = ''asha@example.com''"
  "c_phone asha_A1 = ''9800000000''" "c_movieName asha_A1 = ''Batman''"
  "c_showTime asha_A1 = ''2:00 PM''" "c_seatNumber asha_A1 = ''A1''"
  "c_now bina_A1 = 100" "c_userName bina_A1 = ''Bina''" "c_email bina_A1 = ''bina@example.com''"
  "c_phone bina_A1 = ''9811111111''" "c_movieName bina_A1 = ''Batman''"
  "c_showTime bina_A1 = ''2:00 PM''" "c_seatNumber bina_A1 = ''A1''"
  by (simp_all add: asha_A1_def bina_A1_def)

lemma reserve_step_remaining:
  "remaining (fst (reserve_step r p c)) \<le> remaining p - 1"
  by (cases p) (auto simp: Let_def split: option.splits)

lemma pass_remaining:
  "length ps = length rs \<Longrightarrow> \<forall>p \<in> set ps. remaining p \<le> Suc k \<Longrightarrow>
   length (fst (pass rs ps c)) = length rs \<and> (\<forall>p \<in> set (fst (pass rs ps c)). remaining p \<le> k)"
proof (induction rs ps c rule: pass.induct)
  case (1 r rs p ps c)
  obtain p' c' where st: "reserve_step r p c = (p', c')" by (cases "reserve_step r p c") auto
  obtain ps' c'' where pa: "pass rs ps c' = (ps', c'')" by (cases "pass rs ps c'") auto
  from reserve_step_remaining [of r p c] st "1.prems" have "remaining p' \<le> k" by auto
  moreover from "1.IH" [OF st [symmetric] refl] "1.prems" pa
  have "length ps' = length rs \<and> (\<forall>p \<in> set ps'. remaining p \<le> k)" by auto
  ultimately show ?case by (simp add: st pa)
qed auto

lemma passes_remaining:
  "length ps = length rs \<Longrightarrow> \<forall>p \<in> set ps. remaining p \<le> k + j \<Longrightarrow>
   length (fst (passes k rs ps c)) = length rs \<and>
   (\<forall>p \<in> set (fst (passes k rs ps c)). remaining p \<le> j)"
proof (induction k arbitrary: ps c)
  case 0
  then show ?case by simp
next
  case (Suc k)
  obtain ps' c' where pa: "pass rs ps c = (ps', c')" by (cases "pass rs ps c") auto
  from pass_remaining [of ps rs "k + j" c] Suc.prems pa
  have "length ps' = length rs" "\<forall>p \<in> set ps'. remaining p \<le> k + j" by auto
  from Suc.IH [OF this] show ?case by (simp add: pa)
qed

text \<open>Five passes are enough: every handler has replied, and none was lost.\<close>

lemma concurrent_reserves_all_reply:
  "length (fst (concurrent_reserves rs db)) = length rs \<and>
   (\<forall>p \<in> set (fst (concurrent_reserves rs db)). \<exists>response. p = Replied response)"
proof -
  have "length (map (\<lambda>r. AtBegin) rs) = length rs"
    and "\<forall>p \<in> set (map (\<lambda>r. AtBegin) rs). remaining p \<le> 5 + 0"
    by auto
  from passes_remaining [OF this]
  have "length (fst (concurrent_reserves rs db)) = length rs"
    and z: "\<forall>p \<in> set (fst (concurrent_reserves rs db)). remaining p \<le> 0"
    by (simp_all add: concurrent_reserves_def)
  moreover have "remaining p \<le> 0 \<Longrightarrow> \<exists>response. p = Replied response" for p
    by (cases p) auto
  ultimately show ?thesis by blast
qed


text \<open>
  A handler that has the connection to itself does, statement by statement, what
  \<open>post_api_bookings\<close> does with no storage error.
\<close>

lemma single_handler:
  "concurrent_reserves [r] db =
     ([Replied (fst (post_api_bookings no_failure (c_now r) (c_userName r) (c_email r)
          (c_phone r) (c_movieName r) (c_showTime r) (c_seatNumber r) db))],
      \<lparr>store = snd (post_api_bookings no_failure (c_now r) (c_userName r) (c_email r)
          (c_phone r) (c_movieName r) (c_showTime r) (c_seatNumber r) db), snapshot = None\<rparr>)"
proof (cases "createBooking False (c_now r) (c_userName r) (c_email r)
          (c_phone r) (c_movieName r) (c_showTime r) (c_seatNumber r) db")
  case None
  then show ?thesis
    by (simp add: concurrent_reserves_def eval_nat_numeral post_api_bookings_def Let_def
          beginTransaction_def commit_def rollback_connection_def)
next
  case (Some a)
  obtain i db1 where "a = (i, db1)" by (cases a) auto
  with Some have "next_id db \<le> next_id db1" "seats db1 = seats db"
    by (auto simp: createBooking_def split: if_splits)
  with Some \<open>a = (i, db1)\<close> show ?thesis
    by (simp add: concurrent_reserves_def eval_nat_numeral post_api_bookings_def Let_def
          beginTransaction_def commit_def rollback_connection_def)
qed

lemma post_api_bookings_unavailable:
  assumes "checkSeat seatNumber movieName showTime db = [False]"
  shows "post_api_bookings no_failure now userName email phone movieName showTime seatNumber db
           = (SeatUnavailable, db)"
  using assms by (simp add: post_api_bookings_def SeatUnavailable_def Let_def)

lemma post_api_bookings_no_seat:
  assumes "\<not> begin_fails f" and "checkSeat seatNumber movieName showTime db = []"
  shows "post_api_bookings f now userName email phone movieName showTime seatNumber db
           = (SeatNotFound, db)"
  using assms by (simp add: post_api_bookings_def SeatNotFound_def Let_def)

lemma serial_reserves_taken:
  assumes "\<forall>r \<in> set rs. c_seatNumber r = n \<and> c_movieName r = m \<and> c_showTime r = t"
    and "checkSeat n m t db = [False]"
  shows "serial_reserves rs db = (replicate (length rs) SeatUnavailable, db)"
  using assms by (induction rs) (simp_all add: post_api_bookings_unavailable)

text \<open>
  Served one after the other, requests for one available seat that no booking row holds
  get one success and, all the others, SeatUnavailable.
\<close>

lemma serial_reserves_one_success:
  assumes "\<forall>r \<in> set (r0 # rs). c_seatNumber r = n \<and> c_movieName r = m \<and> c_showTime r = t"
    and "checkSeat n m t db = [True]"
    and "(n, t, m) \<notin> set (map unique_seat_show (bookings db))"
  shows "fst (serial_reserves (r0 # rs) db)
           = Booked (next_id db) # replicate (length rs) SeatUnavailable"
proof -
  from assms(1) have r0: "c_seatNumber r0 = n" "c_movieName r0 = m" "c_showTime r0 = t"
    and rs: "\<forall>r \<in> set rs. c_seatNumber r = n \<and> c_movieName r = m \<and> c_showTime r = t"
    by simp_all
  let ?db1 = "updateSeat False n m t
       (db\<lparr>bookings := bookings db @
              [\<lparr>b_id = next_id db, b_user_name = c_userName r0, b_email = c_email r0,
                b_phone = c_phone r0, b_movie_name = m, b_show_time = t, b_seat_number = n,
                b_booking_date = c_now r0, b_status = confirmed\<rparr>],
           next_id := Suc (next_id db)\<rparr>)"
  from assms(2,3)
  have first: "post_api_bookings no_failure (c_now r0) (c_userName r0) (c_email r0)
            (c_phone r0) m t n db = (Booked (next_id db), ?db1)"
    by (simp add: post_api_bookings_success)
  from assms(2) have "checkSeat n m t ?db1 = [False]"
    by simp
  from serial_reserves_taken [OF rs this] first r0 show ?thesis
    by simp
qed

text \<open>
  Claim C2. Two Reserve requests for seat A1, which exists and is available in the seeded
  catalog, whose handlers both start before the first reply of the database. Both reads
  find the seat available. Asha's \<^verbatim>\<open>INSERT\<close> goes through; Bina's is refused by the
  unique key and her handler answers 500 \<^verbatim>\<open>Failed to create booking\<close>, which is not
  SeatUnavailable, and rolls the connection's transaction back. That transaction holds
  Asha's row and seat update too: she is told \<^verbatim>\<open>Booking confirmed\<close> with id 1, and
  the bookings table is empty. Served one after the other, the same two requests give
  one success and one SeatUnavailable.
\<close>

theorem two_concurrent_reserves:
  "concurrent_reserves [asha_A1, bina_A1] seeded =
     ([Replied (Booked 1), Replied (Error 500 ''Failed to create booking'')],
      \<lparr>store = seeded\<lparr>next_id := 2\<rparr>, snapshot = None\<rparr>) \<and>
   Error 500 ''Failed to create booking'' \<noteq> SeatUnavailable \<and>
   bookings (seeded\<lparr>next_id := 2\<rparr>) = [] \<and>
   serial_reserves [asha_A1, bina_A1] seeded = ([Booked 1, SeatUnavailable], reserved_A1)"
proof (intro conjI)
  show "concurrent_reserves [asha_A1, bina_A1] seeded =
     ([Replied (Booked 1), Replied (Error 500 ''Failed to create booking'')],
      \<lparr>store = seeded\<lparr>next_id := 2\<rparr>, snapshot = None\<rparr>)"
    by (simp add: concurrent_reserves_def eval_nat_numeral createBooking_def Let_def
          beginTransaction_def commit_def rollback_connection_def unique_seat_show_def
          rollback_def)
  show "Error 500 ''Failed to create booking'' \<noteq> SeatUnavailable"
    by (simp add: SeatUnavailable_def)
  show "bookings (seeded\<lparr>next_id := 2\<rparr>) = []"
    by simp
  have "post_api_bookings no_failure 100 ''Bina'' ''bina@example.com'' ''9811111111''
          ''Batman'' ''2:00 PM'' ''A1'' reserved_A1 = (SeatUnavailable, reserved_A1)"
    by (simp add: post_api_bookings_def reserved_A1_eq(2) SeatUnavailable_def Let_def)
  with reserved_A1_eq(1)
  show "serial_reserves [asha_A1, bina_A1] seeded = ([Booked 1, SeatUnavailable], reserved_A1)"
    by simp
qed


end
